theory Spec2Isabelle
  imports Main "HOL-Library.Word"
begin

section \<open>JavaScript strings and the values \<open>JSON.parse\<close> produces\<close>

text \<open>
  A JavaScript string is a sequence of UTF-16 code units; \<open>length\<close>, \<open>substring\<close> and a
  regular expression without the \<open>u\<close> flag all count code units. \<open>js\<close> turns an ASCII
  literal into such a string.
\<close>

type_synonym jschar = "16 word"
type_synonym jsstring = "jschar list"

definition js :: "string \<Rightarrow> jsstring" where
  "js s = map (\<lambda>c. of_nat (of_char c)) s"

text \<open>
  The values of \<open>JSON.parse\<close>. A number keeps its literal text (the double it denotes is
  not computed). An object keeps its own properties in creation order, one entry per key.
  \<open>undefined\<close> is \<open>None\<close> wherever a property is read.
\<close>

datatype js_value =
    JNull
  | JBool bool
  | JNumber jsstring
  | JString jsstring
  | JArray "js_value list"
  | JObject "(jsstring \<times> js_value) list"

datatype js_error =
    Error jsstring
  | TypeError jsstring
  | SyntaxError jsstring

definition is_digit :: "jschar \<Rightarrow> bool" where
  "is_digit c = (0x30 \<le> c \<and> c \<le> 0x39)"

text \<open>
  A number literal denotes zero when every digit of its mantissa is \<open>0\<close>. (A literal
  whose double underflows to zero, below about \<open>5e-324\<close>, is zero in JavaScript as well;
  this reading of the literal does not round.)
\<close>

definition num_is_zero :: "jsstring \<Rightarrow> bool" where
  "num_is_zero l =
     list_all (\<lambda>c. c = 0x30) (filter is_digit (takeWhile (\<lambda>c. c \<noteq> 0x65 \<and> c \<noteq> 0x45) l))"

text \<open>ToBoolean, as \<open>if (v)\<close>, \<open>!v\<close> and \<open>a && b\<close> apply it.\<close>

fun truthy :: "js_value \<Rightarrow> bool" where
  "truthy JNull = False"
| "truthy (JBool b) = b"
| "truthy (JNumber l) = (\<not> num_is_zero l)"
| "truthy (JString s) = (s \<noteq> [])"
| "truthy (JArray es) = True"
| "truthy (JObject kvs) = True"

text \<open>
  \<open>v.items\<close> and \<open>v.title\<close>: reading a property of \<open>null\<close> throws a TypeError; an object
  gives its own property; no prototype of a string, number, boolean or array has a
  property of either name. (The function is used for these names and for \<open>text\<close>, of which
  the same holds.)
\<close>

fun member :: "js_value \<Rightarrow> jsstring \<Rightarrow> js_error + js_value option" where
  "member JNull name = Inl (TypeError (js ''Cannot read properties of null''))"
| "member (JObject kvs) name = Inr (map_of kvs name)"
| "member v name = Inr None"

fun is_array :: "js_value \<Rightarrow> bool" where
  "is_array (JArray es) = True"
| "is_array v = False"

section \<open>\<open>JSON.parse\<close>\<close>

text \<open>
  \<open>JSON.parse\<close> is the platform's. It is modelled after the JSON grammar (ECMA-404, as
  ECMA-262 applies it): a scanner turns the text into tokens, a stack machine builds the
  value. \<open>None\<close> is the SyntaxError.
\<close>

datatype token =
    TLBrace | TRBrace | TLBracket | TRBracket | TColon | TComma
  | TString jsstring | TNumber jsstring | TTrue | TFalse | TNull

definition is_ws :: "jschar \<Rightarrow> bool" where
  "is_ws c = (c = 0x09 \<or> c = 0x0A \<or> c = 0x0D \<or> c = 0x20)"

definition hex_value :: "jschar \<Rightarrow> jschar option" where
  "hex_value c =
     (if 0x30 \<le> c \<and> c \<le> 0x39 then Some (c - 0x30)
      else if 0x41 \<le> c \<and> c \<le> 0x46 then Some (c - 0x37)
      else if 0x61 \<le> c \<and> c \<le> 0x66 then Some (c - 0x57)
      else None)"

definition hex4 :: "jschar \<Rightarrow> jschar \<Rightarrow> jschar \<Rightarrow> jschar \<Rightarrow> jschar option" where
  "hex4 a b c d =
     (case (hex_value a, hex_value b, hex_value c, hex_value d) of
        (Some x, Some y, Some z, Some w) \<Rightarrow> Some (((x * 16 + y) * 16 + z) * 16 + w)
      | _ \<Rightarrow> None)"

text \<open>The single-character escapes: \<open>\" \\ \/ \b \f \n \r \t\<close>.\<close>

definition unescape :: "jschar \<Rightarrow> jschar option" where
  "unescape e =
     (if e = 0x22 then Some 0x22
      else if e = 0x5C then Some 0x5C
      else if e = 0x2F then Some 0x2F
      else if e = 0x62 then Some 0x08
      else if e = 0x66 then Some 0x0C
      else if e = 0x6E then Some 0x0A
      else if e = 0x72 then Some 0x0D
      else if e = 0x74 then Some 0x09
      else None)"

text \<open>
  The characters of a string literal after its opening quote: the decoded string and the
  number of code units read, closing quote included. A control character (below
  \<open>0x20\<close>) is not allowed unescaped.
\<close>

fun lex_string :: "jsstring \<Rightarrow> (jsstring \<times> nat) option" where
  "lex_string [] = None"
| "lex_string (c # cs) =
     (if c = 0x22 then Some ([], 1)
      else if c = 0x5C then
        (case cs of
           [] \<Rightarrow> None
         | e # r \<Rightarrow>
             if e = 0x75 then
               (case r of
                  h1 # h2 # h3 # h4 # r' \<Rightarrow>
                    (case hex4 h1 h2 h3 h4 of
                       None \<Rightarrow> None
                     | Some u \<Rightarrow> map_option (\<lambda>(s, n). (u # s, n + 6)) (lex_string r'))
                | _ \<Rightarrow> None)
             else
               (case unescape e of
                  None \<Rightarrow> None
                | Some d \<Rightarrow> map_option (\<lambda>(s, n). (d # s, n + 2)) (lex_string r)))
      else if c < 0x20 then None
      else map_option (\<lambda>(s, n). (c # s, n + 1)) (lex_string cs))"

text \<open>
  A number literal: \<open>-? (0 | [1-9][0-9]*) (.[0-9]+)? ([eE][+-]?[0-9]+)?\<close>, read as the
  longest prefix of that shape. Each part gives the text it read.
\<close>

definition lex_int :: "jsstring \<Rightarrow> jsstring option" where
  "lex_int cs =
     (case cs of
        [] \<Rightarrow> None
      | c # r \<Rightarrow>
          if c = 0x30 then Some [c]
          else if is_digit c then Some (c # takeWhile is_digit r)
          else None)"

definition lex_frac :: "jsstring \<Rightarrow> jsstring option" where
  "lex_frac cs =
     (case cs of
        [] \<Rightarrow> Some []
      | c # r \<Rightarrow>
          if c = 0x2E then
            (if takeWhile is_digit r = [] then None else Some (c # takeWhile is_digit r))
          else Some [])"

definition lex_sign :: "jsstring \<Rightarrow> jsstring" where
  "lex_sign cs =
     (case cs of [] \<Rightarrow> [] | s # r \<Rightarrow> if s = 0x2B \<or> s = 0x2D then [s] else [])"

definition lex_exp :: "jsstring \<Rightarrow> jsstring option" where
  "lex_exp cs =
     (case cs of
        [] \<Rightarrow> Some []
      | c # r \<Rightarrow>
          if c = 0x65 \<or> c = 0x45 then
            (let sg = lex_sign r; ds = takeWhile is_digit (drop (length sg) r)
             in if ds = [] then None else Some (c # sg @ ds))
          else Some [])"

definition lex_number :: "jsstring \<Rightarrow> jsstring option" where
  "lex_number cs =
     (let minus = (case cs of [] \<Rightarrow> [] | c # r \<Rightarrow> if c = 0x2D then [c] else []) in
      case lex_int (drop (length minus) cs) of
        None \<Rightarrow> None
      | Some i \<Rightarrow>
          (case lex_frac (drop (length minus + length i) cs) of
             None \<Rightarrow> None
           | Some f \<Rightarrow>
               (case lex_exp (drop (length minus + length i + length f) cs) of
                  None \<Rightarrow> None
                | Some e \<Rightarrow> Some (minus @ i @ f @ e))))"

text \<open>
  The scanner. A number token is the whole run of number characters (digits, signs, the
  point, \<open>e\<close> and \<open>E\<close>), which must be a number literal to its end: the grammar allows
  none of these characters right after a number.
\<close>

definition is_num_char :: "jschar \<Rightarrow> bool" where
  "is_num_char c = (is_digit c \<or> c = 0x2D \<or> c = 0x2B \<or> c = 0x2E \<or> c = 0x65 \<or> c = 0x45)"

function lex :: "jsstring \<Rightarrow> token list option" where
  "lex [] = Some []"
| "lex (c # cs) =
     (if is_ws c then lex cs
      else if c = 0x7B then map_option (Cons TLBrace) (lex cs)
      else if c = 0x7D then map_option (Cons TRBrace) (lex cs)
      else if c = 0x5B then map_option (Cons TLBracket) (lex cs)
      else if c = 0x5D then map_option (Cons TRBracket) (lex cs)
      else if c = 0x3A then map_option (Cons TColon) (lex cs)
      else if c = 0x2C then map_option (Cons TComma) (lex cs)
      else if c = 0x22 then
        (case lex_string cs of
           None \<Rightarrow> None
         | Some (s, n) \<Rightarrow> map_option (Cons (TString s)) (lex (drop n cs)))
      else if c = 0x2D \<or> is_digit c then
        (if lex_number (c # takeWhile is_num_char cs) = Some (c # takeWhile is_num_char cs)
         then map_option (Cons (TNumber (c # takeWhile is_num_char cs))) (lex (dropWhile is_num_char cs))
         else None)
      else if take 3 cs = js ''rue'' \<and> c = 0x74 then map_option (Cons TTrue) (lex (drop 3 cs))
      else if take 4 cs = js ''alse'' \<and> c = 0x66 then map_option (Cons TFalse) (lex (drop 4 cs))
      else if take 3 cs = js ''ull'' \<and> c = 0x6E then map_option (Cons TNull) (lex (drop 3 cs))
      else None)"
  by pat_completeness auto
termination
  by (relation "measure length") (auto simp: less_Suc_eq_le length_dropWhile_le)

text \<open>
  Defining a property that exists replaces its value and keeps its place; a new one goes
  last.
\<close>

fun obj_put :: "(jsstring \<times> js_value) list \<Rightarrow> jsstring \<Rightarrow> js_value \<Rightarrow> (jsstring \<times> js_value) list" where
  "obj_put [] k v = [(k, v)]"
| "obj_put (p # ps) k v = (if fst p = k then (k, v) # ps else p # obj_put ps k v)"

text \<open>
  The parser's stack: an array with the elements read so far, or an object with its
  members and the key that waits for its value.
\<close>

datatype frame =
    FArray "js_value list"
  | FObject "(jsstring \<times> js_value) list" "jsstring option"

datatype mode =
    MValue | MArrayFirst | MObjectFirst | MKey | MColon | MAfter | MDone js_value

fun push_value :: "js_value \<Rightarrow> frame list \<Rightarrow> (mode \<times> frame list) option" where
  "push_value v [] = Some (MDone v, [])"
| "push_value v (FArray es # st) = Some (MAfter, FArray (es @ [v]) # st)"
| "push_value v (FObject ms (Some k) # st) = Some (MAfter, FObject (obj_put ms k v) None # st)"
| "push_value v (FObject ms None # st) = None"

fun scalar :: "token \<Rightarrow> js_value option" where
  "scalar (TString s) = Some (JString s)"
| "scalar (TNumber l) = Some (JNumber l)"
| "scalar TTrue = Some (JBool True)"
| "scalar TFalse = Some (JBool False)"
| "scalar TNull = Some JNull"
| "scalar t = None"

fun parse_value :: "token \<Rightarrow> frame list \<Rightarrow> (mode \<times> frame list) option" where
  "parse_value TLBracket st = Some (MArrayFirst, FArray [] # st)"
| "parse_value TLBrace st = Some (MObjectFirst, FObject [] None # st)"
| "parse_value t st = (case scalar t of None \<Rightarrow> None | Some v \<Rightarrow> push_value v st)"

fun parse_key :: "token \<Rightarrow> frame list \<Rightarrow> (mode \<times> frame list) option" where
  "parse_key (TString k) (FObject ms None # st) = Some (MColon, FObject ms (Some k) # st)"
| "parse_key t st = None"

fun parse_step :: "mode \<times> frame list \<Rightarrow> token \<Rightarrow> (mode \<times> frame list) option" where
  "parse_step (MValue, st) t = parse_value t st"
| "parse_step (MArrayFirst, st) t =
     (case (t, st) of
        (TRBracket, FArray es # st') \<Rightarrow> push_value (JArray es) st'
      | _ \<Rightarrow> parse_value t st)"
| "parse_step (MObjectFirst, st) t =
     (case (t, st) of
        (TRBrace, FObject ms None # st') \<Rightarrow> push_value (JObject ms) st'
      | _ \<Rightarrow> parse_key t st)"
| "parse_step (MKey, st) t = parse_key t st"
| "parse_step (MColon, st) t = (if t = TColon then Some (MValue, st) else None)"
| "parse_step (MAfter, st) t =
     (case (t, st) of
        (TComma, FArray es # st') \<Rightarrow> Some (MValue, st)
      | (TComma, FObject ms None # st') \<Rightarrow> Some (MKey, st)
      | (TRBracket, FArray es # st') \<Rightarrow> push_value (JArray es) st'
      | (TRBrace, FObject ms None # st') \<Rightarrow> push_value (JObject ms) st'
      | _ \<Rightarrow> None)"
| "parse_step (MDone v, st) t = None"

fun parse_tokens :: "mode \<times> frame list \<Rightarrow> token list \<Rightarrow> js_value option" where
  "parse_tokens (m, st) [] = (case m of MDone v \<Rightarrow> Some v | _ \<Rightarrow> None)"
| "parse_tokens (m, st) (t # ts) =
     (case parse_step (m, st) t of None \<Rightarrow> None | Some s \<Rightarrow> parse_tokens s ts)"

definition JSON_parse :: "jsstring \<Rightarrow> js_value option" where
  "JSON_parse s = (case lex s of None \<Rightarrow> None | Some ts \<Rightarrow> parse_tokens (MValue, []) ts)"

section \<open>The Prompt Builder\<close>

text \<open>
  The first statements of \<open>extractAssignmentsFromSyllabus\<close>: the syllabus text is cut at
  \<open>MAX_LENGTH\<close> code units (\<open>substring(0, MAX_LENGTH)\<close>) and a marker is appended; the
  prompt is the template literal with the text as its last part.
\<close>

definition MAX_LENGTH :: nat where
  "MAX_LENGTH = 15000"

definition truncatedText :: "jsstring \<Rightarrow> jsstring" where
  "truncatedText syllabusText =
     (if length syllabusText > MAX_LENGTH
      then take MAX_LENGTH syllabusText @ js ''... [text truncated for token limit]''
      else syllabusText)"

definition line :: "string \<Rightarrow> jsstring" where
  "line s = js s @ [0x0A]"

definition instructions :: jsstring where
  \<open>instructions = concat [
      line ''You are an intelligent assistant that extracts academic assignments from a syllabus.'',
      line '''',
      line ''The syllabus text may be structured or unstructured. Your task is to identify all student-facing deliverables, and return them in JSON format.'',
      line '''',
      line ''For each item, identify:'',
      line ''- `title`: Name of the deliverable'',
      line ''- `type`: One of ['assignment', 'quiz', 'exam', 'paper', 'project'] '',
      line ''- `description`: A short summary if available'',
      line ''- `due_date`: The date it's due (in YYYY-MM-DD format)'',
      line ''- `start_date`: Only include this if the type is 'paper' or 'project', and the start date is mentioned'',
      line '''',
      line ''IMPORTANT: Your response MUST be a properly formatted JSON object containing an array called "items". The structure should look like this:'',
      line '''',
      line ''{'',
      line ''  "items": ['',
      line ''    {'',
      line ''      "title": "Final Project Presentation",'',
      line ''      "type": "project",'',
      line ''      "start_date": "2025-03-10",'',
      line ''      "due_date": "2025-04-01",'',
      line ''      "description": "Team presentation on final project findings."'',
      line ''    },'',
      line ''    {'',
      line ''      "title": "Quiz 2",'',
      line ''      "type": "quiz",'',
      line ''      "due_date": "2025-02-15",'',
      js ''      "description": "Covers chapters 4'' @ [0x2013] @ js ''6."'' @ [0x0A],
      line ''    }'',
      line ''  ]'',
      line ''}'',
      line '''',
      line ''Or if no assignments are found:'',
      line ''{'',
      line ''  "items": []'',
      line ''}'',
      line '''',
      line ''Tips for extracting dates:'',
      line ''- If a date is mentioned like "September 15", convert it to "2025-09-15" format.'',
      line ''- If a day of week is mentioned like "due Friday", look for context to determine the date.'',
      line ''- If relative dates are mentioned like "Week 3", try to resolve to an actual date if possible.'',
      line ''- If no year is specified, assume the current academic year (2025).'',
      line ''- IMPORTANT: Even if a date is unclear, make your best estimate rather than excluding the item.'',
      line '''',
      line ''Be generous in your extraction. Even if you're not 100% sure something is an assignment, include it if it has:'',
      line ''1. A title or clear description'',
      line ''2. Any mention of a due date or deadline'',
      line ''3. Language that suggests submission, completion, or evaluation'',
      line '''',
      line ''If you can't find any assignments at all, still return: {"items": []}'',
      line '''',
      line ''Now process the following syllabus text:'',
      line ''''
    ]\<close>

definition prompt :: "jsstring \<Rightarrow> jsstring" where
  "prompt syllabusText = instructions @ truncatedText syllabusText"

section \<open>The Response Normalizer\<close>

text \<open>Decimal text of a number, and back: property keys of strings and arrays.\<close>

fun dec :: "nat \<Rightarrow> jsstring" where
  "dec n = (if n < 10 then [of_nat (48 + n)] else dec (n div 10) @ [of_nat (48 + n mod 10)])"

declare dec.simps [simp del]

definition dec_value :: "jsstring \<Rightarrow> int" where
  "dec_value k = foldl (\<lambda>a c. 10 * a + (uint c - 48)) 0 k"

text \<open>An array index is the canonical decimal text of an integer below \<open>2^32 - 1\<close>.\<close>

definition is_array_index :: "jsstring \<Rightarrow> bool" where
  "is_array_index k =
     (case k of
        [] \<Rightarrow> False
      | c # r \<Rightarrow> list_all is_digit k \<and> (if c = 0x30 then r = [] else True) \<and> dec_value k < 4294967295)"

text \<open>
  \<open>Object.keys(v)\<close>: the array indices in ascending order, then the other keys in
  creation order. A string has its indices as keys; a number or a boolean has none.
\<close>

fun Object_keys :: "js_value \<Rightarrow> jsstring list" where
  "Object_keys (JObject kvs) =
     sort_key dec_value (filter is_array_index (map fst kvs))
       @ filter (\<lambda>k. \<not> is_array_index k) (map fst kvs)"
| "Object_keys (JString s) = map dec [0..<length s]"
| "Object_keys (JArray es) = map dec [0..<length es]"
| "Object_keys v = []"

text \<open>\<open>v[key]\<close> for a key that \<open>Object.keys(v)\<close> gave.\<close>

fun index :: "js_value \<Rightarrow> jsstring \<Rightarrow> js_value option" where
  "index (JObject kvs) k = map_of kvs k"
| "index (JString s) k =
     (if is_array_index k \<and> dec_value k < int (length s)
      then Some (JString [s ! nat (dec_value k)]) else None)"
| "index (JArray es) k =
     (if is_array_index k \<and> dec_value k < int (length es)
      then Some (es ! nat (dec_value k)) else None)"
| "index v k = None"

text \<open>
  The callback of \<open>find\<close>:
  \<open>Array.isArray(parsed[key]) && parsed[key].length > 0 && parsed[key][0].title\<close>.
  It throws when the first element is \<open>null\<close>.
\<close>

definition titled_array :: "js_value \<Rightarrow> jsstring \<Rightarrow> js_error + bool" where
  "titled_array parsed key =
     (case index parsed key of
        Some (JArray (e # es)) \<Rightarrow>
          (case member e (js ''title'') of
             Inl err \<Rightarrow> Inl err
           | Inr None \<Rightarrow> Inr False
           | Inr (Some t) \<Rightarrow> Inr (truthy t))
      | _ \<Rightarrow> Inr False)"

fun find_key :: "(jsstring \<Rightarrow> js_error + bool) \<Rightarrow> jsstring list \<Rightarrow> js_error + jsstring option" where
  "find_key p [] = Inr None"
| "find_key p (k # ks) =
     (case p k of
        Inl err \<Rightarrow> Inl err
      | Inr found \<Rightarrow> if found then Inr (Some k) else find_key p ks)"

definition possibleArrayProps :: "js_value \<Rightarrow> js_error + jsstring option" where
  "possibleArrayProps parsed = find_key (titled_array parsed) (Object_keys parsed)"

definition empty_result :: js_value where
  "empty_result = JObject [(js ''items'', JArray [])]"

text \<open>
  The structure logic the source applies to a parsed value, once to the whole content and
  once to the content of a code block: the value itself when its \<open>items\<close> is truthy, the
  value wrapped when it is an array, else the first array property whose first element
  has a truthy \<open>title\<close>, else the empty result. The key \<open>find\<close> gives is tested with
  \<open>if (possibleArrayProps)\<close>, so the empty key counts as not found. (\<open>find\<close> gives only
  keys with an array behind them; the case without one stands for \<open>{ items: undefined }\<close>.)
\<close>

definition apply_structure :: "js_value \<Rightarrow> js_error + js_value" where
  "apply_structure parsed =
     (case member parsed (js ''items'') of
        Inl err \<Rightarrow> Inl err
      | Inr its \<Rightarrow>
          if (case its of None \<Rightarrow> False | Some v \<Rightarrow> truthy v) then Inr parsed
          else if is_array parsed then Inr (JObject [(js ''items'', parsed)])
          else
            (case possibleArrayProps parsed of
               Inl err \<Rightarrow> Inl err
             | Inr None \<Rightarrow> Inr empty_result
             | Inr (Some key) \<Rightarrow>
                 if key = [] then Inr empty_result
                 else
                   (case index parsed key of
                      None \<Rightarrow> Inr (JObject [])
                    | Some arr \<Rightarrow> Inr (JObject [(js ''items'', arr)]))))"

definition parse_structure :: "(jsstring \<Rightarrow> js_value option) \<Rightarrow> jsstring \<Rightarrow> js_error + js_value" where
  "parse_structure parse text =
     (case parse text of
        None \<Rightarrow> Inl (SyntaxError (js ''Unexpected token''))
      | Some parsed \<Rightarrow> apply_structure parsed)"

text \<open>
  \<open>s.match(/O([\s\S]*)C/)\<close> for literal texts \<open>O\<close> and \<open>C\<close>: the match starts at the first
  \<open>O\<close>, the group is greedy and ends where the last \<open>C\<close> after it starts.
  \<open>after_first\<close> gives what follows the first \<open>O\<close>, \<open>before_last\<close> what stands before the
  last \<open>C\<close>.
\<close>

fun after_first :: "jsstring \<Rightarrow> jsstring \<Rightarrow> jsstring option" where
  "after_first pat [] = (if pat = [] then Some [] else None)"
| "after_first pat (c # cs) =
     (if take (length pat) (c # cs) = pat then Some (drop (length pat) (c # cs))
      else after_first pat cs)"

fun before_last :: "jsstring \<Rightarrow> jsstring \<Rightarrow> jsstring option" where
  "before_last pat [] = (if pat = [] then Some [] else None)"
| "before_last pat (c # cs) =
     (case before_last pat cs of
        Some pre \<Rightarrow> Some (c # pre)
      | None \<Rightarrow> if take (length pat) (c # cs) = pat then Some [] else None)"

definition match_group :: "jsstring \<Rightarrow> jsstring \<Rightarrow> jsstring \<Rightarrow> jsstring option" where
  "match_group opener closer s =
     (case after_first opener s of None \<Rightarrow> None | Some rest \<Rightarrow> before_last closer rest)"

definition fence_json :: jsstring where
  \<open>fence_json = js ''```json\<newline>''\<close>

definition fence_plain :: jsstring where
  \<open>fence_plain = js ''```\<newline>''\<close>

definition fence_close :: jsstring where
  \<open>fence_close = js ''\<newline>```''\<close>

text \<open>
  \<open>content.match(/```json\n([\s\S]*)\n```/) || content.match(/```\n([\s\S]*)\n```/)\<close>, as
  group 1 of the match that is taken.
\<close>

definition jsonMatch :: "jsstring \<Rightarrow> jsstring option" where
  "jsonMatch content =
     (case match_group fence_json fence_close content of
        Some block \<Rightarrow> Some block
      | None \<Rightarrow> match_group fence_plain fence_close content)"

text \<open>
  The statement \<open>console.log(`... ${assignments.items.length} ...`)\<close> before the return
  reads \<open>length\<close> of \<open>assignments.items\<close>, and throws when that is \<open>undefined\<close> or \<open>null\<close>.
\<close>

definition log_count :: "js_value \<Rightarrow> js_error + js_value" where
  "log_count assignments =
     (case member assignments (js ''items'') of
        Inl err \<Rightarrow> Inl err
      | Inr None \<Rightarrow> Inl (TypeError (js ''Cannot read properties of undefined''))
      | Inr (Some its) \<Rightarrow>
          if its = JNull then Inl (TypeError (js ''Cannot read properties of null''))
          else Inr assignments)"

text \<open>
  The normalizer: from the model's text to the value \<open>extractAssignmentsFromSyllabus\<close>
  returns. The parser is a parameter, so what is proved for every parser holds for
  \<open>JSON.parse\<close>.
\<close>

definition normalize_response :: "(jsstring \<Rightarrow> js_value option) \<Rightarrow> jsstring \<Rightarrow> js_error + js_value" where
  "normalize_response parse content =
     log_count
       (case parse_structure parse content of
          Inr assignments \<Rightarrow> assignments
        | Inl error \<Rightarrow>
            (case jsonMatch content of
               None \<Rightarrow> empty_result
             | Some block \<Rightarrow>
                 if block = [] then empty_result
                 else
                   (case parse_structure parse block of
                      Inr assignments \<Rightarrow> assignments
                    | Inl innerError \<Rightarrow> empty_result)))"

section \<open>The Model Invoker\<close>

text \<open>
  The chat completion the API resolves with: \<open>response.choices[0].message.content\<close>. Each
  part may be missing.
\<close>

record chat_message =
  content :: "jsstring option"

record choice =
  message :: "chat_message option"

record completion =
  choices :: "choice list option"

datatype model_name = GPT_4o | GPT_35_Turbo

text \<open>
  What one call of \<open>openai.chat.completions.create\<close> does: it throws at once, or returns
  a promise that resolves or rejects some milliseconds after the call, or stays pending.
  A rejection carries an error object.
\<close>

datatype 'a settlement =
    Throws js_error
  | Resolves nat 'a
  | Rejects nat js_error
  | Pending

type_synonym model_api = "model_name \<Rightarrow> jsstring \<Rightarrow> completion option settlement"

definition TIMEOUT_MS :: nat where
  "TIMEOUT_MS = 45000"

definition timeout_error :: js_error where
  "timeout_error = Error (js ''OpenAI API request timed out after 45 seconds'')"

text \<open>
  \<open>await Promise.race([call, timeoutPromise])\<close> for a call made \<open>now\<close> milliseconds after
  \<open>timeoutPromise\<close> was created: the time at which the \<open>await\<close> returns or throws, and
  which. The one \<open>timeoutPromise\<close> rejects at \<open>TIMEOUT_MS\<close> and stays rejected, so a race
  entered at that time rejects at once. A call that settles in the same millisecond as
  the timer loses the race.
\<close>

fun await_race :: "nat \<Rightarrow> 'a settlement \<Rightarrow> nat \<times> (js_error + 'a)" where
  "await_race now (Throws e) = (now, Inl e)"
| "await_race now (Resolves d r) =
     (if now + d < TIMEOUT_MS then (now + d, Inr r) else (max now TIMEOUT_MS, Inl timeout_error))"
| "await_race now (Rejects d e) =
     (if now + d < TIMEOUT_MS then (now + d, Inl e) else (max now TIMEOUT_MS, Inl timeout_error))"
| "await_race now Pending = (max now TIMEOUT_MS, Inl timeout_error)"

datatype invoked = Responded "completion option" | BothFailed

record invocation =
  calls :: "model_name list"
  settled_at :: nat
  outcome :: invoked

text \<open>
  The nested \<open>try\<close> blocks around the two calls. \<open>calls\<close> lists the models called, in
  order; \<open>BothFailed\<close> is the \<open>return { items: [] }\<close> of the inner \<open>catch\<close>.
\<close>

definition call_model :: "model_api \<Rightarrow> jsstring \<Rightarrow> invocation" where
  "call_model api p =
     (case await_race 0 (api GPT_4o p) of
        (t1, Inr response) \<Rightarrow>
          \<lparr>calls = [GPT_4o], settled_at = t1, outcome = Responded response\<rparr>
      | (t1, Inl error) \<Rightarrow>
          (case await_race t1 (api GPT_35_Turbo p) of
             (t2, Inr response) \<Rightarrow>
               \<lparr>calls = [GPT_4o, GPT_35_Turbo], settled_at = t2, outcome = Responded response\<rparr>
           | (t2, Inl fallbackError) \<Rightarrow>
               \<lparr>calls = [GPT_4o, GPT_35_Turbo], settled_at = t2, outcome = BothFailed\<rparr>))"

section \<open>\<open>extractAssignmentsFromSyllabus\<close>\<close>

text \<open>\<open>!response || !response.choices || !response.choices[0]\<close>, and the choice read.\<close>

definition first_choice :: "completion option \<Rightarrow> choice option" where
  "first_choice response =
     (case response of
        None \<Rightarrow> None
      | Some r \<Rightarrow> (case choices r of None \<Rightarrow> None | Some [] \<Rightarrow> None | Some (c # cs) \<Rightarrow> Some c))"

text \<open>
  \<open>response.choices[0].message.content\<close> and then \<open>content.length\<close>: a TypeError when the
  message or the content is missing.
\<close>

definition read_content :: "choice \<Rightarrow> js_error + jsstring" where
  "read_content c =
     (case message c of
        None \<Rightarrow> Inl (TypeError (js ''Cannot read properties of undefined''))
      | Some m \<Rightarrow>
          (case content m of
             None \<Rightarrow> Inl (TypeError (js ''Cannot read properties of null''))
           | Some text \<Rightarrow> Inr text))"

record extraction =
  returned :: "js_error + js_value"
  finished_at :: nat
  api_calls :: "model_name list"

text \<open>
  The body of the outer \<open>try\<close>. \<open>key\<close> is \<open>process.env.OPENAI_API_KEY\<close>: not set, or a
  string. \<open>Inl\<close> is an exception that leaves the block.
\<close>

definition try_extract ::
  "(jsstring \<Rightarrow> js_value option) \<Rightarrow> jsstring option \<Rightarrow> model_api \<Rightarrow> jsstring \<Rightarrow> extraction" where
  "try_extract parse key api syllabusText =
     (if key = None \<or> key = Some [] then
        \<lparr>returned = Inl (Error (js ''OpenAI API key is missing or invalid. Please check your .env file.'')),
         finished_at = 0, api_calls = []\<rparr>
      else
        (let inv = call_model api (prompt syllabusText) in
         \<lparr>returned =
            (case outcome inv of
               BothFailed \<Rightarrow> Inr empty_result
             | Responded response \<Rightarrow>
                 (case first_choice response of
                    None \<Rightarrow> Inr empty_result
                  | Some c \<Rightarrow>
                      (case read_content c of
                         Inl err \<Rightarrow> Inl err
                       | Inr text \<Rightarrow> normalize_response parse text))),
          finished_at = settled_at inv, api_calls = calls inv\<rparr>))"

text \<open>
  The function: the outer \<open>catch\<close> returns the empty result. \<open>returned\<close> is \<open>Inr\<close> when
  the promise of the async function resolves and \<open>Inl\<close> when it rejects.
\<close>

definition extractAssignmentsFromSyllabus ::
  "(jsstring \<Rightarrow> js_value option) \<Rightarrow> jsstring option \<Rightarrow> model_api \<Rightarrow> jsstring \<Rightarrow> extraction" where
  "extractAssignmentsFromSyllabus parse key api syllabusText =
     (let x = try_extract parse key api syllabusText in
      case returned x of
        Inl error \<Rightarrow> x\<lparr>returned := Inr empty_result\<rparr>
      | Inr assignments \<Rightarrow> x)"

section \<open>The server: \<open>POST /api/parse-assignments\<close>\<close>

text \<open>
  A response is its status and its JSON body. The \<open>message\<close> text of a 200 or 202 body is
  not represented.
\<close>

datatype response_body =
    ErrorBody jsstring
  | ErrorHintBody jsstring jsstring
  | AssignmentsBody js_value
  | TextBody jsstring jsstring jsstring

record http_response =
  status :: nat
  body :: response_body

datatype log_entry =
    Sending202
  | ExtractionComplete
  | CompletedAfter202
  | ErrorFromOpenAI js_error
  | ErrorExtracting js_error

text \<open>
  The state one request's handler and its timer callback share: the flag, whether the
  timer is still set, what was written to \<open>res\<close>, and the log.
\<close>

record handler_state =
  hasResponded :: bool
  timer_set :: bool
  sent :: "http_response list"
  logged :: "log_entry list"

definition hint :: jsstring where
  "hint = js ''Make sure your OpenAI API key is valid in the .env file''"

definition processing_item :: "jsstring \<Rightarrow> js_value" where
  "processing_item today =
     JObject
       [(js ''title'', JString (js ''Processing Assignment Data'')),
        (js ''type'', JString (js ''info'')),
        (js ''due_date'', JString today),
        (js ''description'',
         JString (js ''Your syllabus is still being processed. This may take up to 1-2 minutes for large files.''))]"

definition no_assignments_item :: "jsstring \<Rightarrow> js_value" where
  "no_assignments_item today =
     JObject
       [(js ''title'', JString (js ''No assignments found'')),
        (js ''type'', JString (js ''info'')),
        (js ''due_date'', JString today),
        (js ''description'',
         JString (js ''No assignments with due dates were found in this syllabus. Try uploading a different syllabus file or check the text content of your document.''))]"

text \<open>The callback of \<open>setTimeout\<close>; it does not run once \<open>clearTimeout\<close> was called.\<close>

definition on_timer :: "jsstring \<Rightarrow> handler_state \<Rightarrow> handler_state" where
  "on_timer today st =
     (if \<not> timer_set st then st
      else if \<not> hasResponded st then
        st\<lparr>hasResponded := True, timer_set := False,
           sent := sent st @
             [\<lparr>status = 202,
               body = AssignmentsBody
                 (JObject [(js ''processing'', JBool True),
                           (js ''items'', JArray [processing_item today])])\<rparr>],
           logged := logged st @ [Sending202]\<rparr>
      else st\<lparr>timer_set := False\<rparr>)"

text \<open>
  \<open>assignments.items ? assignments.items.length : 0\<close>. \<open>None\<close> is \<open>undefined\<close>; a length is
  written as the number it is.
\<close>

definition length_of :: "js_value \<Rightarrow> js_value option" where
  "length_of v =
     (case v of
        JArray es \<Rightarrow> Some (JNumber (dec (length es)))
      | JString s \<Rightarrow> Some (JNumber (dec (length s)))
      | JObject kvs \<Rightarrow> map_of kvs (js ''length'')
      | _ \<Rightarrow> None)"

definition assignmentCount :: "js_value \<Rightarrow> js_error + js_value option" where
  "assignmentCount assignments =
     (case member assignments (js ''items'') of
        Inl err \<Rightarrow> Inl err
      | Inr None \<Rightarrow> Inr (Some (JNumber (js ''0'')))
      | Inr (Some its) \<Rightarrow> if truthy its then Inr (length_of its) else Inr (Some (JNumber (js ''0''))))"

text \<open>\<open>assignmentCount === 0\<close>.\<close>

definition is_zero :: "js_value option \<Rightarrow> bool" where
  "is_zero c = (case c of Some (JNumber l) \<Rightarrow> num_is_zero l | _ \<Rightarrow> False)"

definition const_assignment :: js_error where
  "const_assignment = TypeError (js ''Assignment to constant variable.'')"

text \<open>
  The inner \<open>try\<close> block after the \<open>await\<close>, statement by statement: \<open>clearTimeout\<close>; the
  count; the log line "Assignment extraction complete"; the substitution when the count
  is zero; the flag and the 200. \<open>assignments\<close> is declared \<open>const\<close>, so the statement
  \<open>assignments = { items: [...] }\<close> throws a TypeError when it is reached: the log line is
  already written there and the flag is not yet set. \<open>Inl\<close> is the exception that leaves
  the block, with the state it leaves behind.
\<close>

definition try_respond :: "js_value \<Rightarrow> handler_state \<Rightarrow> (js_error \<times> handler_state) + handler_state" where
  "try_respond assignments st0 =
     (let st = st0\<lparr>timer_set := False\<rparr> in
      if \<not> hasResponded st then
        (case assignmentCount assignments of
           Inl err \<Rightarrow> Inl (err, st)
         | Inr count \<Rightarrow>
             (let st1 = st\<lparr>logged := logged st @ [ExtractionComplete]\<rparr> in
              if is_zero count then Inl (const_assignment, st1)
              else Inr (st1\<lparr>hasResponded := True,
                            sent := sent st1 @ [\<lparr>status = 200, body = AssignmentsBody assignments\<rparr>]\<rparr>)))
      else Inr (st\<lparr>logged := logged st @ [CompletedAfter202]\<rparr>))"

text \<open>\<open>error.message || fallback\<close>.\<close>

fun message_of :: "js_error \<Rightarrow> jsstring" where
  "message_of (Error m) = m"
| "message_of (TypeError m) = m"
| "message_of (SyntaxError m) = m"

definition message_or :: "js_error \<Rightarrow> jsstring \<Rightarrow> jsstring" where
  "message_or e fallback = (if message_of e = [] then fallback else message_of e)"

text \<open>The block \<open>catch (aiError)\<close>.\<close>

definition catch_aiError :: "js_error \<Rightarrow> handler_state \<Rightarrow> handler_state" where
  "catch_aiError aiError st0 =
     (let st = st0\<lparr>timer_set := False, logged := logged st0 @ [ErrorFromOpenAI aiError]\<rparr> in
      if \<not> hasResponded st then
        st\<lparr>hasResponded := True,
           sent := sent st @
             [\<lparr>status = 500,
               body = ErrorHintBody (message_or aiError (js ''Assignment extraction failed'')) hint\<rparr>]\<rparr>
      else st)"

text \<open>
  What runs when the awaited extraction settles: the inner \<open>try\<close> and its \<open>catch\<close>, which
  goes on from the state the exception left.
\<close>

definition on_settled :: "js_error + js_value \<Rightarrow> handler_state \<Rightarrow> handler_state" where
  "on_settled r st =
     (case r of
        Inl aiError \<Rightarrow> catch_aiError aiError st
      | Inr assignments \<Rightarrow>
          (case try_respond assignments st of
             Inl (aiError, st') \<Rightarrow> catch_aiError aiError st'
           | Inr st' \<Rightarrow> st'))"

definition ACK_MS :: nat where
  "ACK_MS = 10000"

definition started :: handler_state where
  "started = \<lparr>hasResponded = False, timer_set = True, sent = [], logged = []\<rparr>"

text \<open>
  \<open>const { text, timestamp } = req.body\<close>: \<open>None\<close> is a body that is \<open>undefined\<close>, and
  destructuring it or \<open>null\<close> throws.
\<close>

definition body_text :: "js_value option \<Rightarrow> js_error + js_value option" where
  "body_text b =
     (case b of
        None \<Rightarrow> Inl (TypeError (js ''Cannot destructure property of undefined''))
      | Some v \<Rightarrow> member v (js ''text''))"

text \<open>
  The handler of one request, to the end of the request's activity. The timer and the
  extraction start together; the extraction settles at \<open>finished_at\<close>, before the timer
  is due when that is earlier than \<open>ACK_MS\<close>, and after it otherwise. \<open>today\<close> is the
  date the server's clock gives.
\<close>

definition parse_assignments ::
  "(jsstring \<Rightarrow> js_value option) \<Rightarrow> jsstring option \<Rightarrow> model_api \<Rightarrow> jsstring \<Rightarrow> js_value option
     \<Rightarrow> handler_state" where
  "parse_assignments parse key api today req_body =
     (let idle = started\<lparr>timer_set := False\<rparr> in
      case body_text req_body of
        Inl error \<Rightarrow>
          idle\<lparr>sent := [\<lparr>status = 500,
                         body = ErrorHintBody (message_or error (js ''Assignment extraction failed'')) hint\<rparr>],
               logged := [ErrorExtracting error]\<rparr>
      | Inr (Some (JString text)) \<Rightarrow>
          if text = [] then
            idle\<lparr>sent := [\<lparr>status = 400, body = ErrorBody (js ''Valid syllabus text is required'')\<rparr>]\<rparr>
          else
            (let x = extractAssignmentsFromSyllabus parse key api text in
             if finished_at x < ACK_MS then on_timer today (on_settled (returned x) started)
             else on_settled (returned x) (on_timer today started))
      | Inr other \<Rightarrow>
          idle\<lparr>sent := [\<lparr>status = 400, body = ErrorBody (js ''Valid syllabus text is required'')\<rparr>]\<rparr>)"

section \<open>The server: \<open>POST /api/extract-text\<close>\<close>

text \<open>The file multer read from the form field \<open>syllabus\<close>.\<close>

record upload =
  originalname :: jsstring
  mimetype :: jsstring
  buffer :: "8 word list"

definition PDF :: jsstring where
  "PDF = js ''application/pdf''"

definition DOCX :: jsstring where
  "DOCX = js ''application/vnd.openxmlformats-officedocument.wordprocessingml.document''"

text \<open>\<open>fileFilter\<close>: \<open>cb(null, true)\<close> is \<open>Inr True\<close>, \<open>cb(new Error(...))\<close> is \<open>Inl\<close>.\<close>

definition fileFilter :: "upload \<Rightarrow> js_error + bool" where
  "fileFilter file =
     (if mimetype file = PDF \<or> mimetype file = DOCX then Inr True
      else Inl (Error (js ''Only PDF and DOCX files are allowed'')))"

text \<open>The error-handling middleware, registered last.\<close>

definition error_middleware :: "js_error \<Rightarrow> http_response" where
  "error_middleware err = \<lparr>status = 500, body = ErrorBody (message_or err (js ''Something went wrong''))\<rparr>"

text \<open>
  \<open>extractTextFromPdf\<close> and \<open>extractTextFromDocx\<close>: the library's failure is replaced by
  an error of the function's own. The libraries are parameters.
\<close>

definition extractTextFromPdf :: "(8 word list \<Rightarrow> js_error + jsstring) \<Rightarrow> 8 word list \<Rightarrow> js_error + jsstring" where
  "extractTextFromPdf pdfParse buf =
     (case pdfParse buf of
        Inl error \<Rightarrow> Inl (Error (js ''Failed to extract text from PDF''))
      | Inr text \<Rightarrow> Inr text)"

definition extractTextFromDocx :: "(8 word list \<Rightarrow> js_error + jsstring) \<Rightarrow> 8 word list \<Rightarrow> js_error + jsstring" where
  "extractTextFromDocx mammoth buf =
     (case mammoth buf of
        Inl error \<Rightarrow> Inl (Error (js ''Failed to extract text from DOCX''))
      | Inr text \<Rightarrow> Inr text)"

text \<open>The route handler, for the \<open>req.file\<close> multer leaves.\<close>

definition extract_text_handler ::
  "(8 word list \<Rightarrow> js_error + jsstring) \<Rightarrow> (8 word list \<Rightarrow> js_error + jsstring) \<Rightarrow> upload option
     \<Rightarrow> http_response" where
  "extract_text_handler pdfParse mammoth req_file =
     (case req_file of
        None \<Rightarrow> \<lparr>status = 400, body = ErrorBody (js ''No file uploaded'')\<rparr>
      | Some file \<Rightarrow>
          (let extracted =
             (if mimetype file = PDF then map_sum id Some (extractTextFromPdf pdfParse (buffer file))
              else if mimetype file = DOCX then map_sum id Some (extractTextFromDocx mammoth (buffer file))
              else Inr None)
           in case extracted of
                Inr None \<Rightarrow> \<lparr>status = 400, body = ErrorBody (js ''Unsupported file type'')\<rparr>
              | Inr (Some text) \<Rightarrow>
                  \<lparr>status = 200, body = TextBody (originalname file) (mimetype file) text\<rparr>
              | Inl error \<Rightarrow>
                  \<lparr>status = 500, body = ErrorBody (message_or error (js ''Text extraction failed''))\<rparr>))"

text \<open>
  The route: \<open>upload.single('syllabus')\<close>, then the handler. Multer calls \<open>fileFilter\<close> for
  the file of the request; an error the filter gives, or a file above the size limit,
  goes to \<open>next(err)\<close>, and Express passes it to the error-handling middleware without
  calling the handler.
\<close>

definition extract_text ::
  "nat \<Rightarrow> (8 word list \<Rightarrow> js_error + jsstring) \<Rightarrow> (8 word list \<Rightarrow> js_error + jsstring) \<Rightarrow> upload option
     \<Rightarrow> http_response" where
  "extract_text maxFileSize pdfParse mammoth req_file =
     (case req_file of
        None \<Rightarrow> extract_text_handler pdfParse mammoth None
      | Some file \<Rightarrow>
          (case fileFilter file of
             Inl err \<Rightarrow> error_middleware err
           | Inr accepted \<Rightarrow>
               if \<not> accepted then extract_text_handler pdfParse mammoth None
               else if length (buffer file) > maxFileSize then error_middleware (Error (js ''File too large''))
               else extract_text_handler pdfParse mammoth (Some file)))"

section \<open>Notions the properties are stated with\<close>

text \<open>
  A call fails, for the \<open>await\<close> entered at \<open>now\<close>: it throws, it rejects, or it has not
  resolved when the \<open>TIMEOUT_MS\<close> timer fires.
\<close>

fun call_fails :: "nat \<Rightarrow> 'a settlement \<Rightarrow> bool" where
  "call_fails now (Throws e) = True"
| "call_fails now (Rejects d e) = True"
| "call_fails now (Resolves d r) = (TIMEOUT_MS \<le> now + d)"
| "call_fails now Pending = True"

text \<open>
  A text in which every backquote is followed by a double quote before any line feed and
  before the end: \<open>quote_before_newline\<close> looks ahead from one place, \<open>backquotes_quoted\<close>
  asks it after each backquote. JSON text is of this kind, since a backquote can only
  stand inside a string literal and a string literal holds no raw line feed.
\<close>

fun quote_before_newline :: "jsstring \<Rightarrow> bool" where
  "quote_before_newline [] = False"
| "quote_before_newline (c # cs) =
     (if c = 0x22 then True else if c = 0x0A then False else quote_before_newline cs)"

fun backquotes_quoted :: "jsstring \<Rightarrow> bool" where
  "backquotes_quoted [] = True"
| "backquotes_quoted (c # cs) =
     ((if c = 0x60 then quote_before_newline cs else True) \<and> backquotes_quoted cs)"

text \<open>
  The handler's state is in order when the flag is set exactly when something was written,
  and at most one response was written.
\<close>

definition responded_once :: "handler_state \<Rightarrow> bool" where
  "responded_once st = ((hasResponded st \<longleftrightarrow> sent st \<noteq> []) \<and> length (sent st) \<le> 1)"

section \<open>Lemmas\<close>

subsection \<open>The structure logic and the normalizer\<close>

lemma find_key_found: "find_key p ks = Inr (Some k) \<Longrightarrow> p k = Inr True"
  by (induction ks) (auto split: sum.splits if_splits)

lemma titled_array_index:
  "titled_array parsed key = Inr True \<Longrightarrow> \<exists>e es. index parsed key = Some (JArray (e # es))"
  by (auto simp: titled_array_def split: option.splits js_value.splits list.splits sum.splits)

lemma possibleArrayProps_index:
  "possibleArrayProps parsed = Inr (Some key) \<Longrightarrow> \<exists>e es. index parsed key = Some (JArray (e # es))"
  unfolding possibleArrayProps_def by (blast dest: find_key_found titled_array_index)

lemma truthy_not_null: "truthy v \<Longrightarrow> v \<noteq> JNull"
  by auto

lemma apply_structure_items:
  assumes "apply_structure parsed = Inr a"
  shows "\<exists>v. member a (js ''items'') = Inr (Some v) \<and> v \<noteq> JNull"
proof (cases "member parsed (js ''items'')")
  case (Inl err)
  with assms show ?thesis by (simp add: apply_structure_def)
next
  case (Inr its)
  show ?thesis
  proof (cases "case its of None \<Rightarrow> False | Some v \<Rightarrow> truthy v")
    case True
    then obtain v where "its = Some v" "truthy v" by (auto split: option.splits)
    with assms Inr show ?thesis by (auto simp: apply_structure_def)
  next
    case False
    note nt = this
    show ?thesis
    proof (cases "is_array parsed")
      case True
      with assms Inr nt have "a = JObject [(js ''items'', parsed)]"
        by (simp add: apply_structure_def)
      moreover from True have "parsed \<noteq> JNull" by auto
      ultimately show ?thesis by simp
    next
      case False
      show ?thesis
      proof (cases "possibleArrayProps parsed")
        case (Inl err)
        with assms Inr nt False show ?thesis by (simp add: apply_structure_def)
      next
        case (Inr found)
        note f = this
        show ?thesis
        proof (cases found)
          case None
          with assms \<open>member parsed (js ''items'') = Inr its\<close> nt False f
          show ?thesis by (auto simp: apply_structure_def empty_result_def)
        next
          case (Some key)
          with f obtain e es where "index parsed key = Some (JArray (e # es))"
            by (blast dest: possibleArrayProps_index)
          with assms \<open>member parsed (js ''items'') = Inr its\<close> nt False f Some
          show ?thesis by (auto simp: apply_structure_def empty_result_def split: if_splits)
        qed
      qed
    qed
  qed
qed

lemma log_count_ok:
  "member a (js ''items'') = Inr (Some v) \<Longrightarrow> v \<noteq> JNull \<Longrightarrow> log_count a = Inr a"
  by (simp add: log_count_def)

lemma log_count_empty: "log_count empty_result = Inr empty_result"
  by (simp add: log_count_def empty_result_def)

lemma parse_structure_items:
  "parse_structure parse text = Inr a \<Longrightarrow> log_count a = Inr a"
  by (auto simp: parse_structure_def split: option.splits dest!: apply_structure_items intro: log_count_ok)

lemma normalize_response_returns: "\<exists>a. normalize_response parse out = Inr a"
  by (auto simp: normalize_response_def log_count_empty parse_structure_items
      split: sum.splits option.splits)

subsection \<open>The two regular expressions on a fenced block\<close>

lemma lex_backquote: "lex (0x60 # cs) = None"
  by (simp add: is_ws_def is_digit_def)

lemma JSON_parse_fence_json: "JSON_parse (fence_json @ p) = None"
  by (simp add: JSON_parse_def fence_json_def js_def is_ws_def is_digit_def)

lemma JSON_parse_fence_plain: "JSON_parse (fence_plain @ p) = None"
  by (simp add: JSON_parse_def fence_plain_def js_def is_ws_def is_digit_def)

lemma JSON_parse_nonempty: "JSON_parse p = Some v \<Longrightarrow> p \<noteq> []"
  by (auto simp: JSON_parse_def)

lemma before_last_close: "before_last fence_close (p @ fence_close) = Some p"
proof (induction p)
  case Nil
  show ?case by (simp add: fence_close_def js_def)
next
  case (Cons c p)
  then show ?case by simp
qed

lemma after_first_prefix: "pat \<noteq> [] \<Longrightarrow> after_first pat (pat @ r) = Some r"
  by (cases pat) auto

lemma match_group_fenced:
  "opener \<noteq> [] \<Longrightarrow> match_group opener fence_close (opener @ p @ fence_close) = Some p"
  by (simp add: match_group_def after_first_prefix before_last_close)

text \<open>
  Where a double quote comes before any line feed, no word without a double quote and
  with a line feed starts the text.
\<close>

lemma quote_before_newline_prefix:
  "quote_before_newline cs \<Longrightarrow> take (length w) (cs @ r) = w \<Longrightarrow> 0x22 \<notin> set w \<Longrightarrow> 0x0A \<notin> set w"
proof (induction cs arbitrary: w)
  case Nil
  then show ?case by simp
next
  case (Cons c cs)
  show ?case
  proof (cases w)
    case Nil
    then show ?thesis by simp
  next
    case (Cons x w')
    with Cons.prems have x: "x = c" and tk: "take (length w') (cs @ r) = w'" by auto
    from Cons.prems(3) Cons x have nq: "c \<noteq> 0x22" "0x22 \<notin> set w'" by auto
    with Cons.prems(1) have "c \<noteq> 0x0A" "quote_before_newline cs" by (auto split: if_splits)
    with Cons.IH[OF _ tk nq(2)] x Cons show ?thesis by simp
  qed
qed

lemma after_first_skip:
  assumes "backquotes_quoted p" "0x22 \<notin> set w" "0x0A \<in> set w"
  shows "after_first (0x60 # w) (p @ r) = after_first (0x60 # w) r"
  using assms(1)
proof (induction p)
  case Nil
  show ?case by simp
next
  case (Cons c p)
  have "take (length (0x60 # w)) (c # p @ r) \<noteq> 0x60 # w"
  proof
    assume eq: "take (length (0x60 # w)) (c # p @ r) = 0x60 # w"
    then have c: "c = 0x60" and tk: "take (length w) (p @ r) = w" by auto
    with Cons.prems have "quote_before_newline p" by simp
    from quote_before_newline_prefix[OF this tk assms(2)] assms(3) show False by simp
  qed
  moreover from Cons.prems have "backquotes_quoted p" by simp
  ultimately show ?case using Cons.IH by auto
qed

lemma fence_json_shape: "\<exists>w. fence_json = 0x60 # w \<and> 0x22 \<notin> set w \<and> 0x0A \<in> set w"
  by (simp add: fence_json_def js_def)

lemma fence_plain_shape: "\<exists>w. fence_plain = 0x60 # w \<and> 0x22 \<notin> set w \<and> 0x0A \<in> set w"
  by (simp add: fence_plain_def js_def)

lemma no_opener_in_quoted:
  assumes "backquotes_quoted p"
  shows "after_first fence_json (p @ r) = after_first fence_json r"
    and "after_first fence_plain (p @ r) = after_first fence_plain r"
  using fence_json_shape fence_plain_shape after_first_skip[OF assms] by metis+

lemma jsonMatch_quoted: "backquotes_quoted p \<Longrightarrow> jsonMatch p = None"
  using no_opener_in_quoted[of p "[]"]
  by (simp add: jsonMatch_def match_group_def fence_json_def fence_plain_def js_def)

lemma after_first_json_in_plain:
  "backquotes_quoted p \<Longrightarrow> after_first fence_json (fence_plain @ p @ fence_close) = None"
proof -
  assume q: "backquotes_quoted p"
  have "after_first fence_json (fence_plain @ p @ fence_close) = after_first fence_json (p @ fence_close)"
    by (simp add: fence_json_def fence_plain_def js_def)
  also have "\<dots> = after_first fence_json fence_close"
    by (rule no_opener_in_quoted(1)[OF q])
  also have "\<dots> = None"
    by (simp add: fence_json_def fence_close_def js_def)
  finally show ?thesis .
qed

lemma fence_nonempty: "fence_json \<noteq> []" "fence_plain \<noteq> []"
  by (simp_all add: fence_json_def fence_plain_def js_def)

lemma jsonMatch_fence_json: "jsonMatch (fence_json @ p @ fence_close) = Some p"
  by (simp add: jsonMatch_def match_group_fenced fence_nonempty)

lemma jsonMatch_fence_plain:
  "backquotes_quoted p \<Longrightarrow> jsonMatch (fence_plain @ p @ fence_close) = Some p"
proof -
  assume q: "backquotes_quoted p"
  have "match_group fence_json fence_close (fence_plain @ p @ fence_close) = None"
    by (simp add: match_group_def after_first_json_in_plain[OF q])
  then show ?thesis
    by (simp add: jsonMatch_def match_group_fenced fence_nonempty)
qed

subsection \<open>JSON text has its backquotes inside string literals\<close>

lemma quoted_skip: "0x60 \<notin> set pre \<Longrightarrow> backquotes_quoted (pre @ r) = backquotes_quoted r"
  by (induction pre) auto

lemma quote_ahead: "0x0A \<notin> set b \<Longrightarrow> quote_before_newline (b @ 0x22 # r)"
  by (induction b) auto

lemma quoted_literal:
  "0x0A \<notin> set b \<Longrightarrow> backquotes_quoted r \<Longrightarrow> backquotes_quoted (b @ 0x22 # r)"
  by (induction b) (auto simp: quote_ahead)

lemma hex_value_not_newline: "hex_value c = Some x \<Longrightarrow> c \<noteq> 0x0A"
  by (auto simp: hex_value_def split: if_splits)

lemma hex4_not_newline:
  "hex4 a b c d = Some u \<Longrightarrow> a \<noteq> 0x0A \<and> b \<noteq> 0x0A \<and> c \<noteq> 0x0A \<and> d \<noteq> 0x0A"
  by (auto simp: hex4_def split: option.splits dest: hex_value_not_newline)

lemma unescape_not_newline: "unescape e = Some d \<Longrightarrow> e \<noteq> 0x0A"
  by (auto simp: unescape_def split: if_splits)

lemma lex_string_body:
  "lex_string cs = Some (s, n) \<Longrightarrow> \<exists>b. cs = b @ 0x22 # drop n cs \<and> 0x0A \<notin> set b"
proof (induction cs arbitrary: s n rule: lex_string.induct)
  case 1
  then show ?case by simp
next
  case (2 c cs)
  show ?case
  proof (cases "c = 0x22")
    case True
    with "2.prems" have "n = 1" by simp
    with True show ?thesis by (intro exI[of _ "[]"]) simp
  next
    case nq: False
    show ?thesis
    proof (cases "c = 0x5C")
      case True
      note bs = this
      with nq "2.prems" obtain e r where cs: "cs = e # r" by (cases cs) auto
      show ?thesis
      proof (cases "e = 0x75")
        case True
        with nq bs cs "2.prems" obtain h1 h2 h3 h4 r' u s' n' where
          r: "r = h1 # h2 # h3 # h4 # r'" and h: "hex4 h1 h2 h3 h4 = Some u"
          and rec: "lex_string r' = Some (s', n')" and n: "n = n' + 6"
          by (auto split: list.splits option.splits)
        from "2.IH"(1)[OF nq bs cs True r refl refl refl h rec]
        obtain b where b: "r' = b @ 0x22 # drop n' r'" "0x0A \<notin> set b" by blast
        from hex4_not_newline[OF h] have hn: "h1 \<noteq> 0x0A" "h2 \<noteq> 0x0A" "h3 \<noteq> 0x0A" "h4 \<noteq> 0x0A"
          by auto
        have "drop n (c # cs) = drop n' (drop 6 (c # cs))"
          unfolding n by (simp only: drop_drop)
        then have "drop n (c # cs) = drop n' r'"
          using cs r by simp
        then have "c # cs = (c # e # h1 # h2 # h3 # h4 # b) @ 0x22 # drop n (c # cs)"
          using b(1) cs r by simp
        moreover have "0x0A \<notin> set (c # e # h1 # h2 # h3 # h4 # b)"
          using b(2) hn bs True by simp
        ultimately show ?thesis by blast
      next
        case False
        with nq bs cs "2.prems" obtain d s' n' where
          d: "unescape e = Some d" and rec: "lex_string r = Some (s', n')" and n: "n = n' + 2"
          by (auto split: option.splits)
        from "2.IH"(2)[OF nq bs cs False d rec]
        obtain b where b: "r = b @ 0x22 # drop n' r" "0x0A \<notin> set b" by blast
        have "drop n (c # cs) = drop n' (drop 2 (c # cs))"
          unfolding n by (simp only: drop_drop)
        then have "drop n (c # cs) = drop n' r"
          using cs by simp
        then have "c # cs = (c # e # b) @ 0x22 # drop n (c # cs)"
          using b(1) cs by simp
        moreover have "0x0A \<notin> set (c # e # b)"
          using b(2) bs unescape_not_newline[OF d] by simp
        ultimately show ?thesis by blast
      qed
    next
      case False
      note nb = this
      with nq "2.prems" have ge: "\<not> c < 0x20" by (auto split: if_splits)
      with nq nb "2.prems" obtain s' n' where
        rec: "lex_string cs = Some (s', n')" and n: "n = n' + 1"
        by auto
      from "2.IH"(3)[OF nq nb ge rec]
      obtain b where b: "cs = b @ 0x22 # drop n' cs" "0x0A \<notin> set b" by blast
      have "c # cs = (c # b) @ 0x22 # drop n (c # cs)"
        using b(1) n by simp
      moreover from ge have "c \<noteq> 0x0A" by auto
      then have "0x0A \<notin> set (c # b)" using b(2) by simp
      ultimately show ?thesis by blast
    qed
  qed
qed

lemma num_chars_no_backquote: "0x60 \<notin> set (takeWhile is_num_char cs)"
proof
  assume "0x60 \<in> set (takeWhile is_num_char cs)"
  then have "is_num_char 0x60" by (rule set_takeWhileD[THEN conjunct2])
  then show False by (simp add: is_num_char_def is_digit_def)
qed

lemma lex_quoted: "lex p = Some ts \<Longrightarrow> backquotes_quoted p"
proof (induction p arbitrary: ts rule: lex.induct)
  case 1
  show ?case by simp
next
  case (2 c cs)
  consider (ws) "is_ws c"
    | (punct) "\<not> is_ws c" "c = 0x7B \<or> c = 0x7D \<or> c = 0x5B \<or> c = 0x5D \<or> c = 0x3A \<or> c = 0x2C"
    | (str) "\<not> is_ws c" "c = 0x22"
    | (num) "\<not> is_ws c" "c \<noteq> 0x7B" "c \<noteq> 0x7D" "c \<noteq> 0x5B" "c \<noteq> 0x5D" "c \<noteq> 0x3A" "c \<noteq> 0x2C" "c \<noteq> 0x22"
        "c = 0x2D \<or> is_digit c"
    | (lit) "\<not> is_ws c" "c \<noteq> 0x7B" "c \<noteq> 0x7D" "c \<noteq> 0x5B" "c \<noteq> 0x5D" "c \<noteq> 0x3A" "c \<noteq> 0x2C" "c \<noteq> 0x22"
        "\<not> (c = 0x2D \<or> is_digit c)"
    by blast
  then show ?case
  proof cases
    case ws
    with "2.prems" have "lex cs = Some ts" by simp
    with "2.IH"(1)[OF ws] have "backquotes_quoted cs" by simp
    moreover from ws have "c \<noteq> 0x60" by (auto simp: is_ws_def)
    ultimately show ?thesis by simp
  next
    case punct
    then have c: "c \<noteq> 0x60" by auto
    from punct "2.prems" obtain ts' where "lex cs = Some ts'"
      by (auto split: if_splits)
    with punct "2.IH"(2-7) have "backquotes_quoted cs"
      by (metis)
    with c show ?thesis by simp
  next
    case str
    with "2.prems" obtain s n ts' where ls: "lex_string cs = Some (s, n)"
      and rec: "lex (drop n cs) = Some ts'"
      by (auto simp: is_ws_def split: option.splits)
    from str have nots: "c \<noteq> 0x7B" "c \<noteq> 0x7D" "c \<noteq> 0x5B" "c \<noteq> 0x5D" "c \<noteq> 0x3A" "c \<noteq> 0x2C" by auto
    from "2.IH"(8)[OF str(1) nots str(2) ls refl rec]
    have q: "backquotes_quoted (drop n cs)" .
    from lex_string_body[OF ls] obtain b where b: "cs = b @ 0x22 # drop n cs" "0x0A \<notin> set b"
      by blast
    from quoted_literal[OF b(2) q] b(1) have "backquotes_quoted cs" by simp
    with str show ?thesis by simp
  next
    case num
    with "2.prems" obtain ts' where rec: "lex (dropWhile is_num_char cs) = Some ts'"
      and ok: "lex_number (c # takeWhile is_num_char cs) = Some (c # takeWhile is_num_char cs)"
      by (auto split: if_splits)
    from "2.IH"(9)[OF num(1-9) ok rec] have q: "backquotes_quoted (dropWhile is_num_char cs)" .
    have "backquotes_quoted (takeWhile is_num_char cs @ dropWhile is_num_char cs)"
      by (simp only: quoted_skip[OF num_chars_no_backquote] q)
    then have "backquotes_quoted cs" by simp
    moreover from num have "c \<noteq> 0x60" by (auto simp: is_digit_def)
    ultimately show ?thesis by simp
  next
    case lit
    from lit have c: "c \<noteq> 0x60 \<or> lex (c # cs) = None"
      by (simp add: js_def)
    consider (t) "take 3 cs = js ''rue'' \<and> c = 0x74"
      | (f) "\<not> (take 3 cs = js ''rue'' \<and> c = 0x74)" "take 4 cs = js ''alse'' \<and> c = 0x66"
      | (n) "\<not> (take 3 cs = js ''rue'' \<and> c = 0x74)" "\<not> (take 4 cs = js ''alse'' \<and> c = 0x66)"
          "take 3 cs = js ''ull'' \<and> c = 0x6E"
      | (none) "\<not> (take 3 cs = js ''rue'' \<and> c = 0x74)" "\<not> (take 4 cs = js ''alse'' \<and> c = 0x66)"
          "\<not> (take 3 cs = js ''ull'' \<and> c = 0x6E)"
      by blast
    then show ?thesis
    proof cases
      case t
      with lit "2.prems" obtain ts' where rec: "lex (drop 3 cs) = Some ts'" by auto
      from "2.IH"(10)[OF lit t rec] have q: "backquotes_quoted (drop 3 cs)" .
      have "cs = js ''rue'' @ drop 3 cs" using t append_take_drop_id[of 3 cs] by simp
      then have "backquotes_quoted cs = backquotes_quoted (drop 3 cs)"
        using quoted_skip[of "js ''rue''" "drop 3 cs"] by (simp add: js_def)
      with q t show ?thesis by simp
    next
      case f
      with lit "2.prems" obtain ts' where rec: "lex (drop 4 cs) = Some ts'" by auto
      from "2.IH"(11)[OF lit f rec] have q: "backquotes_quoted (drop 4 cs)" .
      have "cs = js ''alse'' @ drop 4 cs" using f append_take_drop_id[of 4 cs] by simp
      then have "backquotes_quoted cs = backquotes_quoted (drop 4 cs)"
        using quoted_skip[of "js ''alse''" "drop 4 cs"] by (simp add: js_def)
      with q f show ?thesis by simp
    next
      case n
      with lit "2.prems" obtain ts' where rec: "lex (drop 3 cs) = Some ts'" by auto
      from "2.IH"(12)[OF lit n rec] have q: "backquotes_quoted (drop 3 cs)" .
      have "cs = js ''ull'' @ drop 3 cs" using n append_take_drop_id[of 3 cs] by simp
      then have "backquotes_quoted cs = backquotes_quoted (drop 3 cs)"
        using quoted_skip[of "js ''ull''" "drop 3 cs"] by (simp add: js_def)
      with q n show ?thesis by simp
    next
      case none
      with lit "2.prems" show ?thesis by simp
    qed
  qed
qed

lemma JSON_parse_quoted: "JSON_parse p = Some v \<Longrightarrow> backquotes_quoted p"
  by (auto simp: JSON_parse_def split: option.splits intro: lex_quoted)

lemma normalize_fenced:
  assumes "parse (opener @ p @ fence_close) = None" "p \<noteq> []"
    and "jsonMatch (opener @ p @ fence_close) = Some p" "jsonMatch p = None"
  shows "normalize_response parse (opener @ p @ fence_close) = normalize_response parse p"
  using assms
  by (simp add: normalize_response_def parse_structure_def split: sum.splits option.splits)

subsection \<open>The two calls\<close>

lemma await_race_fails: "call_fails now s \<longleftrightarrow> isl (snd (await_race now s))"
  by (cases s) auto

lemma call_model_primary_ok:
  "\<not> call_fails 0 (api GPT_4o p) \<Longrightarrow> calls (call_model api p) = [GPT_4o]"
  by (cases "api GPT_4o p") (auto simp: call_model_def)

lemma call_model_primary_fails:
  "call_fails 0 (api GPT_4o p) \<Longrightarrow> calls (call_model api p) = [GPT_4o, GPT_35_Turbo]"
  by (cases "api GPT_4o p"; cases "await_race (fst (await_race 0 (api GPT_4o p))) (api GPT_35_Turbo p)";
      cases "snd (await_race (fst (await_race 0 (api GPT_4o p))) (api GPT_35_Turbo p)) ")
     (auto simp: call_model_def split: prod.splits sum.splits if_splits)

lemma call_model_both_fail:
  "call_fails 0 (api GPT_4o p) \<Longrightarrow>
   call_fails (fst (await_race 0 (api GPT_4o p))) (api GPT_35_Turbo p) \<Longrightarrow>
   outcome (call_model api p) = BothFailed"
  by (cases "api GPT_4o p"; cases "api GPT_35_Turbo p")
     (auto simp: call_model_def split: prod.splits sum.splits if_splits)

text \<open>
  The timer is shared by the two races: when the first call is lost to it, the second
  call is made and its race is lost at once, whatever the second call does.
\<close>

lemma primary_timeout_both_failed:
  assumes "api GPT_4o p = Pending \<or> (\<exists>d r. api GPT_4o p = Resolves d r \<and> TIMEOUT_MS \<le> d)
           \<or> (\<exists>d e. api GPT_4o p = Rejects d e \<and> TIMEOUT_MS \<le> d)"
  shows "outcome (call_model api p) = BothFailed \<and> settled_at (call_model api p) = TIMEOUT_MS"
  using assms
  by (cases "api GPT_35_Turbo p") (auto simp: call_model_def)

subsection \<open>What the extraction returns\<close>

lemma extract_returns: "\<exists>v. returned (extractAssignmentsFromSyllabus parse key api text) = Inr v"
  by (cases "returned (try_extract parse key api text)")
     (simp_all add: extractAssignmentsFromSyllabus_def Let_def)

lemma log_count_items:
  "log_count a' = Inr a \<Longrightarrow> \<exists>its. member a (js ''items'') = Inr (Some its) \<and> its \<noteq> JNull"
  by (auto simp: log_count_def split: sum.splits option.splits if_splits)

lemma normalize_response_items:
  "normalize_response parse out = Inr a \<Longrightarrow> \<exists>its. member a (js ''items'') = Inr (Some its) \<and> its \<noteq> JNull"
  unfolding normalize_response_def by (rule log_count_items)

lemma empty_result_items: "member empty_result (js ''items'') = Inr (Some (JArray []))"
  by (simp add: empty_result_def)

lemma extract_returns_items:
  "\<exists>v its. returned (extractAssignmentsFromSyllabus parse key api text) = Inr v
     \<and> member v (js ''items'') = Inr (Some its) \<and> its \<noteq> JNull"
proof (cases "returned (try_extract parse key api text)")
  case (Inl e)
  then show ?thesis
    by (simp add: extractAssignmentsFromSyllabus_def Let_def empty_result_items)
next
  case (Inr v)
  then have r: "returned (extractAssignmentsFromSyllabus parse key api text) = Inr v"
    by (simp add: extractAssignmentsFromSyllabus_def Let_def)
  from Inr have "v = empty_result \<or> (\<exists>out. normalize_response parse out = Inr v)"
    by (auto simp: try_extract_def Let_def split: if_splits invoked.splits option.splits sum.splits)
  then have "\<exists>its. member v (js ''items'') = Inr (Some its) \<and> its \<noteq> JNull"
    using empty_result_items normalize_response_items by blast
  with r show ?thesis by blast
qed

lemma try_respond_error:
  "try_respond a st = Inl (e, st') \<Longrightarrow> member a (js ''items'') = Inr its \<Longrightarrow> e = const_assignment"
  by (auto simp: try_respond_def assignmentCount_def Let_def split: if_splits sum.splits option.splits)

lemma try_respond_error_logged:
  "try_respond a st = Inl (e, st') \<Longrightarrow> set (logged st') \<subseteq> set (logged st) \<union> {ExtractionComplete}"
  by (auto simp: try_respond_def Let_def split: if_splits sum.splits)

lemma on_timer_logged: "set (logged (on_timer today st)) \<subseteq> set (logged st) \<union> {Sending202}"
  by (auto simp: on_timer_def)

lemma on_settled_logged:
  assumes "member a (js ''items'') = Inr its"
  shows "set (logged (on_settled (Inr a) st)) \<subseteq> set (logged st) \<union> {ExtractionComplete, CompletedAfter202, ErrorFromOpenAI const_assignment}"
proof (cases "try_respond a st")
  case (Inl thrown)
  obtain e st' where t: "try_respond a st = Inl (e, st')"
    using Inl by (cases thrown) simp
  from try_respond_error[OF t assms] try_respond_error_logged[OF t] t show ?thesis
    by (auto simp: on_settled_def catch_aiError_def Let_def)
next
  case (Inr st')
  then show ?thesis
    by (auto simp: on_settled_def try_respond_def Let_def split: if_splits sum.splits)
qed

lemma parse_assignments_logged:
  "ErrorFromOpenAI e \<in> set (logged (parse_assignments parse key api today req_body)) \<Longrightarrow> e = const_assignment"
proof -
  assume a: "ErrorFromOpenAI e \<in> set (logged (parse_assignments parse key api today req_body))"
  obtain syl where t: "body_text req_body = Inr (Some (JString syl))" "syl \<noteq> []"
    using a by (auto simp: parse_assignments_def started_def Let_def split: sum.splits option.splits js_value.splits if_splits)
  obtain v its where v: "returned (extractAssignmentsFromSyllabus parse key api syl) = Inr v"
    "member v (js ''items'') = Inr (Some its)"
    using extract_returns_items by blast
  have s0: "logged started = []" by (simp add: started_def)
  have "set (logged (parse_assignments parse key api today req_body))
      \<subseteq> {Sending202, ExtractionComplete, CompletedAfter202, ErrorFromOpenAI const_assignment}"
  proof (cases "finished_at (extractAssignmentsFromSyllabus parse key api syl) < ACK_MS")
    case True
    then have "parse_assignments parse key api today req_body = on_timer today (on_settled (Inr v) started)"
      using t v by (simp add: parse_assignments_def Let_def)
    then show ?thesis
      using on_timer_logged[of today "on_settled (Inr v) started"] on_settled_logged[OF v(2), of started] s0
      by auto
  next
    case False
    then have "parse_assignments parse key api today req_body = on_settled (Inr v) (on_timer today started)"
      using t v by (simp add: parse_assignments_def Let_def)
    then show ?thesis
      using on_timer_logged[of today started] on_settled_logged[OF v(2), of "on_timer today started"] s0
      by auto
  qed
  with a show ?thesis by auto
qed

subsection \<open>One response for each request\<close>

lemma digit_char: "n < 10 \<Longrightarrow> is_digit (of_nat (48 + n)) \<and> ((of_nat (48 + n) :: jschar) = 0x30 \<longleftrightarrow> n = 0)
   \<and> (of_nat (48 + n) :: jschar) \<noteq> 0x65 \<and> (of_nat (48 + n) :: jschar) \<noteq> 0x45"
proof -
  assume "n < 10"
  then consider "n = 0" | "n = 1" | "n = 2" | "n = 3" | "n = 4" | "n = 5" | "n = 6" | "n = 7" | "n = 8" | "n = 9"
    by (auto simp: less_Suc_eq numeral_eq_Suc)
  then show ?thesis by cases (simp_all add: is_digit_def)
qed

lemma dec_digits: "list_all (\<lambda>c. is_digit c \<and> c \<noteq> 0x65 \<and> c \<noteq> 0x45) (dec n)"
proof (induction n rule: dec.induct)
  case (1 n)
  show ?case
  proof (cases "n < 10")
    case True
    then show ?thesis using digit_char[of n] by (subst dec.simps) simp
  next
    case False
    then show ?thesis using 1 digit_char[of "n mod 10"] by (subst dec.simps) simp
  qed
qed

lemma dec_nonzero: "0 < n \<Longrightarrow> \<not> list_all (\<lambda>c. c = 0x30) (dec n)"
proof (induction n rule: dec.induct)
  case (1 n)
  show ?case
  proof (cases "n < 10")
    case True
    then show ?thesis using digit_char[of n] "1.prems" by (subst dec.simps) simp
  next
    case False
    then have "0 < n div 10" by simp
    with 1 False show ?thesis by (subst dec.simps) simp
  qed
qed

lemma num_is_zero_dec: "0 < n \<Longrightarrow> \<not> num_is_zero (dec n)"
proof -
  assume n: "0 < n"
  have a: "takeWhile (\<lambda>c. c \<noteq> 0x65 \<and> c \<noteq> 0x45) (dec n) = dec n"
    using dec_digits[of n] by (simp add: takeWhile_eq_all_conv list_all_iff)
  have b: "filter is_digit (dec n) = dec n"
    using dec_digits[of n] by (simp add: filter_id_conv list_all_iff)
  show ?thesis using dec_nonzero[OF n] by (simp add: num_is_zero_def a b)
qed

lemma on_timer_once: "responded_once st \<Longrightarrow> responded_once (on_timer today st)"
  by (auto simp: responded_once_def on_timer_def)

lemma catch_aiError_once: "responded_once st \<Longrightarrow> responded_once (catch_aiError e st)"
  by (auto simp: responded_once_def catch_aiError_def Let_def)

lemma try_respond_once:
  "responded_once st \<Longrightarrow> try_respond a st = Inr st' \<Longrightarrow> responded_once st' \<and> hasResponded st'"
  by (auto simp: responded_once_def try_respond_def Let_def split: sum.splits if_splits)

lemma try_respond_thrown_once:
  "responded_once st \<Longrightarrow> try_respond a st = Inl (e, st') \<Longrightarrow> responded_once st'"
  by (auto simp: responded_once_def try_respond_def Let_def split: sum.splits if_splits)

lemma catch_aiError_responds: "hasResponded (catch_aiError e st)"
  by (simp add: catch_aiError_def Let_def)

lemma on_settled_once: "responded_once st \<Longrightarrow> responded_once (on_settled r st) \<and> hasResponded (on_settled r st)"
proof (cases r)
  case (Inl e)
  assume "responded_once st"
  with Inl show ?thesis by (simp add: on_settled_def catch_aiError_once catch_aiError_responds)
next
  case (Inr a)
  assume o: "responded_once st"
  show ?thesis
  proof (cases "try_respond a st")
    case (Inl thrown)
    obtain e st' where t: "try_respond a st = Inl (e, st')"
      using Inl by (cases thrown) simp
    with Inr try_respond_thrown_once[OF o t] show ?thesis
      by (simp add: on_settled_def catch_aiError_once catch_aiError_responds)
  next
    case st': (Inr st')
    with Inr try_respond_once[OF o st'] show ?thesis by (simp add: on_settled_def)
  qed
qed

lemma on_timer_keeps: "hasResponded st \<Longrightarrow> hasResponded (on_timer today st)"
  by (simp add: on_timer_def)

lemma started_once: "responded_once started"
  by (simp add: responded_once_def started_def)

lemma once_one: "responded_once st \<Longrightarrow> hasResponded st \<Longrightarrow> length (sent st) = 1"
  by (cases "sent st") (auto simp: responded_once_def)

lemma run_one_response:
  "length (sent (on_timer today (on_settled r started))) = 1"
  "length (sent (on_settled r (on_timer today started))) = 1"
proof -
  from on_settled_once[OF started_once, of r]
  show "length (sent (on_timer today (on_settled r started))) = 1"
    by (intro once_one on_timer_once on_timer_keeps) simp_all
  from on_settled_once[OF on_timer_once[OF started_once], of r today]
  show "length (sent (on_settled r (on_timer today started))) = 1"
    by (intro once_one) simp_all
qed

lemma parse_assignments_one_response:
  "length (sent (parse_assignments parse key api today req_body)) = 1"
  by (simp add: parse_assignments_def Let_def run_one_response
        split: sum.splits option.splits js_value.splits)

lemma late_extraction_202:
  assumes "body_text req_body = Inr (Some (JString syl))" "syl \<noteq> []"
    and "ACK_MS \<le> finished_at (extractAssignmentsFromSyllabus parse key api syl)"
  shows "map status (sent (parse_assignments parse key api today req_body)) = [202]"
proof -
  obtain v where v: "returned (extractAssignmentsFromSyllabus parse key api syl) = Inr v"
    using extract_returns by blast
  have "parse_assignments parse key api today req_body = on_settled (Inr v) (on_timer today started)"
    using assms v by (simp add: parse_assignments_def Let_def)
  then show ?thesis
    by (simp add: on_settled_def on_timer_def started_def try_respond_def Let_def)
qed

lemma zero_items_500:
  assumes "member a (js ''items'') = Inr (Some (JArray []))"
  shows "sent (on_timer today (on_settled (Inr a) started))
       = [\<lparr>status = 500, body = ErrorHintBody (js ''Assignment to constant variable.'') hint\<rparr>]"
  using assms
  by (simp add: on_settled_def try_respond_def started_def assignmentCount_def length_of_def is_zero_def
      num_is_zero_def is_digit_def catch_aiError_def const_assignment_def message_or_def on_timer_def Let_def js_def
      dec.simps)

lemma some_items_200:
  assumes "member a (js ''items'') = Inr (Some (JArray (e # es)))"
  shows "sent (on_timer today (on_settled (Inr a) started)) = [\<lparr>status = 200, body = AssignmentsBody a\<rparr>]"
proof -
  have "\<not> num_is_zero (dec (length (e # es)))"
    by (rule num_is_zero_dec) simp
  with assms show ?thesis
  by (simp add: on_settled_def try_respond_def started_def assignmentCount_def length_of_def is_zero_def
       on_timer_def Let_def)
qed

section \<open>The properties\<close>

text \<open>
  C1. The property: when the extraction of a \<open>POST /parse-assignments\<close> request finishes
  in under 10 seconds with zero items, the server answers 200 with a single synthetic
  record titled "No assignments found".

  The code does not: the handler declares \<open>const assignments\<close> and then assigns the
  synthetic record to it, which throws; the \<open>catch\<close> answers 500. The request below is the
  specification's own example (the model answers \<open>I cannot process this.\<close> after 1.5
  seconds); what is written to the response is the one 500. \<open>zero_items_500\<close> above says
  the same for every result whose \<open>items\<close> is the empty array.
\<close>

theorem parse_assignments_no_items_500:
  \<open>sent (parse_assignments JSON_parse (Some (js ''sk-test''))
     (\<lambda>m p. Resolves 1500 (Some \<lparr>choices = Some [\<lparr>message = Some \<lparr>content = Some (js ''I cannot process this.'')\<rparr>\<rparr>]\<rparr>))
     (js ''2025-02-01'')
     (Some (JObject [(js ''text'', JString (js ''Quiz 2 due Feb 15, covers ch 4-6''))])))
   = [\<lparr>status = 500, body = ErrorHintBody (js ''Assignment to constant variable.'') hint\<rparr>]\<close>
  by (simp add: parse_assignments_def body_text_def extractAssignmentsFromSyllabus_def try_extract_def
      call_model_def TIMEOUT_MS_def ACK_MS_def first_choice_def read_content_def
      normalize_response_def parse_structure_def JSON_parse_def jsonMatch_def match_group_def
      fence_json_def fence_plain_def fence_close_def empty_result_def log_count_def
      on_settled_def try_respond_def started_def assignmentCount_def length_of_def is_zero_def
      num_is_zero_def is_digit_def is_ws_def catch_aiError_def const_assignment_def message_or_def on_timer_def Let_def js_def
      dec.simps)

text \<open>
  C2. The property: for every model output the normalizer returns a value whose \<open>items\<close>
  is present and is an array, and it never throws.

  It never throws, and \<open>items\<close> is never missing or \<open>null\<close> (\<open>normalize_response_returns\<close>,
  \<open>normalize_response_items\<close>). But a parsed object whose \<open>items\<close> is truthy is returned
  as it is, array or not: for the output \<open>{"items":"none"}\<close> the value returned has the
  string \<open>none\<close> as its \<open>items\<close>.
\<close>

theorem normalize_response_items_not_array:
  \<open>normalize_response JSON_parse (js ''{"items":"none"}'')
     = Inr (JObject [(js ''items'', JString (js ''none''))])\<close>
  by (simp add: normalize_response_def parse_structure_def JSON_parse_def apply_structure_def
      log_count_def is_ws_def is_digit_def js_def)

text \<open>
  C3. At most two calls are made. If the call of the primary model fails (it throws, it
  rejects, or the 45-second timer fires first), the secondary model is called exactly
  once. If that call fails too (for the \<open>await\<close> entered when the first one failed), the
  outcome is the \<open>return { items: [] }\<close> of the inner \<open>catch\<close>, and
  \<open>extractAssignmentsFromSyllabus\<close>, with an API key set, returns the empty result.
\<close>

theorem call_model_fallback:
  "length (calls (call_model api p)) \<le> 2
   \<and> (call_fails 0 (api GPT_4o p) \<longrightarrow> count_list (calls (call_model api p)) GPT_35_Turbo = 1)
   \<and> (call_fails 0 (api GPT_4o p) \<and> call_fails (fst (await_race 0 (api GPT_4o p))) (api GPT_35_Turbo p)
        \<longrightarrow> outcome (call_model api p) = BothFailed)
   \<and> (call_fails 0 (api GPT_4o (prompt text))
        \<and> call_fails (fst (await_race 0 (api GPT_4o (prompt text)))) (api GPT_35_Turbo (prompt text))
        \<longrightarrow> returned (extractAssignmentsFromSyllabus parse (Some (k # key)) api text) = Inr empty_result)"
proof -
  have "length (calls (call_model api p)) \<le> 2"
    by (cases "call_fails 0 (api GPT_4o p)") (simp_all add: call_model_primary_ok call_model_primary_fails)
  moreover have "call_fails 0 (api GPT_4o p) \<longrightarrow> count_list (calls (call_model api p)) GPT_35_Turbo = 1"
    by (simp add: call_model_primary_fails)
  moreover have "call_fails 0 (api GPT_4o p) \<and> call_fails (fst (await_race 0 (api GPT_4o p))) (api GPT_35_Turbo p)
        \<longrightarrow> outcome (call_model api p) = BothFailed"
    by (simp add: call_model_both_fail)
  moreover have "call_fails 0 (api GPT_4o (prompt text))
        \<and> call_fails (fst (await_race 0 (api GPT_4o (prompt text)))) (api GPT_35_Turbo (prompt text))
        \<longrightarrow> returned (extractAssignmentsFromSyllabus parse (Some (k # key)) api text) = Inr empty_result"
    by (simp add: extractAssignmentsFromSyllabus_def try_extract_def call_model_both_fail Let_def)
  ultimately show ?thesis by blast
qed

theorem call_model_fallback_witness:
  "call_fails 0 (Rejects 120 (Error (js ''503'')) :: completion option settlement)
   \<and> call_fails 120 (Pending :: completion option settlement)
   \<and> calls (call_model (\<lambda>m p. if m = GPT_4o then Rejects 120 (Error (js ''503'')) else Pending) [])
       = [GPT_4o, GPT_35_Turbo]
   \<and> outcome (call_model (\<lambda>m p. if m = GPT_4o then Rejects 120 (Error (js ''503'')) else Pending) [])
       = BothFailed
   \<and> returned (extractAssignmentsFromSyllabus JSON_parse (Some (js ''sk-test''))
         (\<lambda>m p. if m = GPT_4o then Rejects 120 (Error (js ''503'')) else Pending) (js ''Quiz 2 due Feb 15''))
       = Inr empty_result"
  using call_model_fallback[of "\<lambda>m p. if m = GPT_4o then Rejects 120 (Error (js ''503'')) else Pending" "[]"
      "js ''Quiz 2 due Feb 15''" JSON_parse "0x73" "js ''k-test''"]
  by (simp add: call_model_def TIMEOUT_MS_def js_def)

text \<open>
  C4. The property: one response for each \<open>POST /parse-assignments\<close> request, a 200 when
  the extraction finishes before the 10-second timer and a 202 when the timer fires
  first, and nothing after it.

  Exactly one response is written on every path (\<open>parse_assignments_one_response\<close>), it
  is the 202 when the timer fires first (\<open>late_extraction_202\<close>), and the 200 when the
  extraction is first with a non-empty array of items (\<open>some_items_200\<close>). When the
  extraction is first with no items, the one response is a 500, for the reason given at
  C1: below, the model answers \<open>{"items": []}\<close> after 0.8 seconds.
\<close>

theorem parse_assignments_empty_items_one_500:
  \<open>map status (sent (parse_assignments JSON_parse (Some (js ''sk-test''))
     (\<lambda>m p. Resolves 800 (Some \<lparr>choices = Some [\<lparr>message = Some \<lparr>content = Some (js ''{"items": []}'')\<rparr>\<rparr>]\<rparr>))
     (js ''2025-02-01'')
     (Some (JObject [(js ''text'', JString (js ''Course overview. No graded work.''))]))))
   = [500]\<close>
  by (simp add: parse_assignments_def body_text_def extractAssignmentsFromSyllabus_def try_extract_def
      call_model_def TIMEOUT_MS_def ACK_MS_def first_choice_def read_content_def
      normalize_response_def parse_structure_def JSON_parse_def apply_structure_def
      empty_result_def log_count_def
      on_settled_def try_respond_def started_def assignmentCount_def length_of_def is_zero_def
      num_is_zero_def is_digit_def is_ws_def catch_aiError_def const_assignment_def message_or_def on_timer_def Let_def js_def
      dec.simps)

text \<open>
  C5. The property: an uploaded file whose content type is neither PDF nor DOCX is
  answered with status 400 and a body \<open>{ error }\<close>.

  The body has that shape, the status is 500: \<open>fileFilter\<close> rejects the file, multer
  passes the error on, and the error-handling middleware answers every error with 500.
  The handler's own branch for an unsupported type, which answers 400, is never reached.
\<close>

theorem extract_text_unsupported_500:
  "mimetype file \<noteq> PDF \<Longrightarrow> mimetype file \<noteq> DOCX \<Longrightarrow>
   extract_text maxFileSize pdfParse mammoth (Some file)
     = \<lparr>status = 500, body = ErrorBody (js ''Only PDF and DOCX files are allowed'')\<rparr>"
  by (simp add: extract_text_def fileFilter_def error_middleware_def message_or_def js_def)

theorem extract_text_unsupported_500_witness:
  "mimetype \<lparr>originalname = js ''notes.txt'', mimetype = js ''text/plain'', buffer = [0x68, 0x69]\<rparr> \<noteq> PDF
   \<and> mimetype \<lparr>originalname = js ''notes.txt'', mimetype = js ''text/plain'', buffer = [0x68, 0x69]\<rparr> \<noteq> DOCX
   \<and> status (extract_text 15728640 (\<lambda>b. Inr []) (\<lambda>b. Inr [])
        (Some \<lparr>originalname = js ''notes.txt'', mimetype = js ''text/plain'', buffer = [0x68, 0x69]\<rparr>)) = 500"
proof -
  have a: "mimetype \<lparr>originalname = js ''notes.txt'', mimetype = js ''text/plain'', buffer = [0x68, 0x69]\<rparr> \<noteq> PDF"
    by (simp add: PDF_def js_def)
  have b: "mimetype \<lparr>originalname = js ''notes.txt'', mimetype = js ''text/plain'', buffer = [0x68, 0x69]\<rparr> \<noteq> DOCX"
    by (simp add: DOCX_def js_def)
  show ?thesis using a b extract_text_unsupported_500[OF a b, of 15728640 "\<lambda>b. Inr []" "\<lambda>b. Inr []"] by simp
qed

text \<open>
  C6. When the model output parses to an object whose \<open>items\<close> is an array, the normalizer
  returns that object: its \<open>items\<close> is the array, with the same elements in the same
  order. This holds for every parser, so for \<open>JSON.parse\<close>.
\<close>

theorem normalize_response_items_unchanged:
  "parse out = Some (JObject kvs) \<Longrightarrow> map_of kvs (js ''items'') = Some (JArray a) \<Longrightarrow>
   normalize_response parse out = Inr (JObject kvs) \<and>
   member (JObject kvs) (js ''items'') = Inr (Some (JArray a))"
  by (simp add: normalize_response_def parse_structure_def apply_structure_def log_count_def)

theorem normalize_response_items_unchanged_witness:
  \<open>JSON_parse (js ''{"items":[{"title":"Quiz 2","type":"quiz","due_date":"2025-02-15"}]}'')
     = Some (JObject [(js ''items'',
         JArray [JObject [(js ''title'', JString (js ''Quiz 2'')), (js ''type'', JString (js ''quiz'')),
                          (js ''due_date'', JString (js ''2025-02-15''))]])])
   \<and> normalize_response JSON_parse (js ''{"items":[{"title":"Quiz 2","type":"quiz","due_date":"2025-02-15"}]}'')
     = Inr (JObject [(js ''items'',
         JArray [JObject [(js ''title'', JString (js ''Quiz 2'')), (js ''type'', JString (js ''quiz'')),
                          (js ''due_date'', JString (js ''2025-02-15''))]])])\<close>
proof -
  have p: \<open>JSON_parse (js ''{"items":[{"title":"Quiz 2","type":"quiz","due_date":"2025-02-15"}]}'')
     = Some (JObject [(js ''items'',
         JArray [JObject [(js ''title'', JString (js ''Quiz 2'')), (js ''type'', JString (js ''quiz'')),
                          (js ''due_date'', JString (js ''2025-02-15''))]])])\<close>
    by (simp add: JSON_parse_def js_def is_ws_def is_digit_def)
  have m: "map_of [(js ''items'',
         JArray [JObject [(js ''title'', JString (js ''Quiz 2'')), (js ''type'', JString (js ''quiz'')),
                          (js ''due_date'', JString (js ''2025-02-15''))]])] (js ''items'')
     = Some (JArray [JObject [(js ''title'', JString (js ''Quiz 2'')), (js ''type'', JString (js ''quiz'')),
                          (js ''due_date'', JString (js ''2025-02-15''))]])"
    by simp
  show ?thesis
    using normalize_response_items_unchanged[where parse = JSON_parse, OF p m] p by simp
qed

text \<open>
  C7. For every text \<open>p\<close> that \<open>JSON.parse\<close> accepts, the output made of \<open>p\<close> in a fenced
  block (the opening fence, with or without the tag \<open>json\<close>, on a line of its own, then
  \<open>p\<close>, then a line feed and the closing fence) is normalized to the same result as \<open>p\<close>
  itself.
\<close>

theorem normalize_response_fenced:
  assumes "JSON_parse p = Some v"
  shows "normalize_response JSON_parse (fence_json @ p @ fence_close) = normalize_response JSON_parse p
       \<and> normalize_response JSON_parse (fence_plain @ p @ fence_close) = normalize_response JSON_parse p"
proof -
  from assms obtain ts where "lex p = Some ts" by (auto simp: JSON_parse_def split: option.splits)
  then have q: "backquotes_quoted p" by (rule lex_quoted)
  from assms have ne: "p \<noteq> []" by (rule JSON_parse_nonempty)
  have "normalize_response JSON_parse (fence_json @ p @ fence_close) = normalize_response JSON_parse p"
    by (rule normalize_fenced[of JSON_parse fence_json p,
          OF JSON_parse_fence_json ne jsonMatch_fence_json jsonMatch_quoted[OF q]])
  moreover
  have "normalize_response JSON_parse (fence_plain @ p @ fence_close) = normalize_response JSON_parse p"
    by (rule normalize_fenced[of JSON_parse fence_plain p,
          OF JSON_parse_fence_plain ne jsonMatch_fence_plain[OF q] jsonMatch_quoted[OF q]])
  ultimately show ?thesis by simp
qed

lemma parse_quiz_items: \<open>JSON_parse (js ''{"items":[{"title":"Quiz 2"}]}'') = Some (JObject [(js ''items'', JArray [JObject [(js ''title'', JString (js ''Quiz 2''))]])])\<close>
  by (simp add: JSON_parse_def js_def is_ws_def is_digit_def)

theorem normalize_response_fenced_witness:
  \<open>JSON_parse (js ''{"items":[{"title":"Quiz 2"}]}'') \<noteq> None
   \<and> normalize_response JSON_parse (js ''```json\<newline>{"items":[{"title":"Quiz 2"}]}\<newline>```'')
       = Inr (JObject [(js ''items'', JArray [JObject [(js ''title'', JString (js ''Quiz 2''))]])])
   \<and> normalize_response JSON_parse (js ''```\<newline>{"items":[{"title":"Quiz 2"}]}\<newline>```'')
       = normalize_response JSON_parse (js ''{"items":[{"title":"Quiz 2"}]}'')\<close>
proof -
  have fj: \<open>js ''```json\<newline>{"items":[{"title":"Quiz 2"}]}\<newline>```'' = fence_json @ js ''{"items":[{"title":"Quiz 2"}]}'' @ fence_close\<close>
    by (simp add: js_def fence_json_def fence_close_def)
  have fp: \<open>js ''```\<newline>{"items":[{"title":"Quiz 2"}]}\<newline>```'' = fence_plain @ js ''{"items":[{"title":"Quiz 2"}]}'' @ fence_close\<close>
    by (simp add: js_def fence_plain_def fence_close_def)
  have bare: \<open>normalize_response JSON_parse (js ''{"items":[{"title":"Quiz 2"}]}'')
      = Inr (JObject [(js ''items'', JArray [JObject [(js ''title'', JString (js ''Quiz 2''))]])])\<close>
    by (simp add: normalize_response_def parse_structure_def parse_quiz_items apply_structure_def log_count_def)
  show ?thesis
    using normalize_response_fenced[OF parse_quiz_items] parse_quiz_items bare unfolding fj fp by simp
qed

text \<open>
  C8, as amended. The prompt is the fixed instructions followed by the embedded text. A
  text of at most 15,000 characters is embedded unchanged; of a longer text, the first
  15,000 characters are embedded, followed by the marker
  \<open>... [text truncated for token limit]\<close>.

  As stated, with the marker \<open>[text truncated]\<close>, the property fails: the counterexample
  is a text of 15,001 characters.
\<close>

theorem prompt_truncation:
  "prompt text = instructions @ truncatedText text
   \<and> (length s \<le> 15000 \<longrightarrow> truncatedText s = s)
   \<and> (15000 < length t \<longrightarrow> truncatedText t = take 15000 t @ js ''... [text truncated for token limit]'')"
  by (simp add: prompt_def truncatedText_def MAX_LENGTH_def)

theorem prompt_truncation_witness:
  "length (js ''Quiz 2 due Feb 15, covers ch 4-6'') \<le> 15000
   \<and> truncatedText (js ''Quiz 2 due Feb 15, covers ch 4-6'') = js ''Quiz 2 due Feb 15, covers ch 4-6''
   \<and> 15000 < length (replicate 15001 (0x61 :: jschar))
   \<and> truncatedText (replicate 15001 0x61) = replicate 15000 0x61 @ js ''... [text truncated for token limit]''"
  using prompt_truncation[of "[]" "js ''Quiz 2 due Feb 15, covers ch 4-6''" "replicate 15001 0x61"]
  by (simp add: js_def)

theorem truncation_marker_counterexample:
  "15000 < length (replicate 15001 (0x61 :: jschar))
   \<and> truncatedText (replicate 15001 0x61)
       \<noteq> take 15000 (replicate 15001 0x61) @ js ''[text truncated]''"
proof -
  have l: "length (truncatedText (replicate 15001 (0x61 :: jschar))) = 15036"
    by (simp add: truncatedText_def MAX_LENGTH_def js_def)
  have r: "length (take 15000 (replicate 15001 (0x61 :: jschar)) @ js ''[text truncated]'') = 15016"
    by (simp add: js_def)
  have "truncatedText (replicate 15001 (0x61 :: jschar))
       \<noteq> take 15000 (replicate 15001 0x61) @ js ''[text truncated]''"
  proof
    assume "truncatedText (replicate 15001 (0x61 :: jschar))
       = take 15000 (replicate 15001 0x61) @ js ''[text truncated]''"
    then have "length (truncatedText (replicate 15001 (0x61 :: jschar)))
       = length (take 15000 (replicate 15001 (0x61 :: jschar)) @ js ''[text truncated]'')"
      by (rule arg_cong)
    with l r show False by simp
  qed
  then show ?thesis by simp
qed

text \<open>
  C9. When the model output parses to an array, the normalizer returns \<open>{ items: a }\<close>
  with that array, unchanged. This holds for every parser, so for \<open>JSON.parse\<close>.
\<close>

theorem normalize_response_bare_array:
  "parse out = Some (JArray a) \<Longrightarrow>
   normalize_response parse out = Inr (JObject [(js ''items'', JArray a)])"
  by (simp add: normalize_response_def parse_structure_def apply_structure_def log_count_def)

theorem normalize_response_bare_array_witness:
  \<open>JSON_parse (js ''[{"title":"Quiz 2","type":"quiz"}]'')
     = Some (JArray [JObject [(js ''title'', JString (js ''Quiz 2'')), (js ''type'', JString (js ''quiz''))]])
   \<and> normalize_response JSON_parse (js ''[{"title":"Quiz 2","type":"quiz"}]'')
     = Inr (JObject [(js ''items'',
         JArray [JObject [(js ''title'', JString (js ''Quiz 2'')), (js ''type'', JString (js ''quiz''))]])])\<close>
proof -
  have p: \<open>JSON_parse (js ''[{"title":"Quiz 2","type":"quiz"}]'')
     = Some (JArray [JObject [(js ''title'', JString (js ''Quiz 2'')), (js ''type'', JString (js ''quiz''))]])\<close>
    by (simp add: JSON_parse_def js_def is_ws_def is_digit_def)
  show ?thesis
    using normalize_response_bare_array[where parse = JSON_parse, OF p] p by simp
qed

text \<open>
  C10. The property: \<open>extractAssignmentsFromSyllabus\<close> returns a value for every text and
  every behaviour of the API and never throws, so the handler's 500 branch for
  exceptions of the extraction call, \<open>catch (aiError)\<close>, is unreachable.

  The first part holds: the promise always resolves (\<open>extract_returns\<close>). The branch is
  reached all the same, through the defect of C1: the assignment to the constant throws
  inside the same \<open>try\<close> block. Below, both API calls fail with a network error; the
  extraction returns the empty result, and the handler enters \<open>catch (aiError)\<close>, logs the
  error and answers 500.
\<close>

theorem parse_assignments_catch_entered:
  "returned (extractAssignmentsFromSyllabus JSON_parse (Some (js ''sk-test''))
      (\<lambda>m p. Rejects 30 (Error (js ''ECONNRESET''))) (js ''Quiz 2 due Feb 15'')) = Inr empty_result
   \<and> sent (parse_assignments JSON_parse (Some (js ''sk-test'')) (\<lambda>m p. Rejects 30 (Error (js ''ECONNRESET'')))
        (js ''2025-02-01'') (Some (JObject [(js ''text'', JString (js ''Quiz 2 due Feb 15''))])))
     = [\<lparr>status = 500, body = ErrorHintBody (js ''Assignment to constant variable.'') hint\<rparr>]
   \<and> ErrorFromOpenAI const_assignment
       \<in> set (logged (parse_assignments JSON_parse (Some (js ''sk-test''))
            (\<lambda>m p. Rejects 30 (Error (js ''ECONNRESET'')))
            (js ''2025-02-01'') (Some (JObject [(js ''text'', JString (js ''Quiz 2 due Feb 15''))]))))"
  by (simp add: parse_assignments_def body_text_def extractAssignmentsFromSyllabus_def try_extract_def
      call_model_def TIMEOUT_MS_def ACK_MS_def empty_result_def on_settled_def try_respond_def
      started_def assignmentCount_def length_of_def is_zero_def num_is_zero_def is_digit_def
      catch_aiError_def const_assignment_def message_or_def on_timer_def Let_def js_def dec.simps)

end
